theory Spec2Isabelle
  imports Main
begin

text \<open>
  A model of the Business Central client of the workshop MCP server: the configuration
  (config.py), the token manager (azure_auth.py) and the client with its endpoint builder,
  request executor and domain operations (client.py). Every source function is a HOL
  function of the same name (\<open>request\<close>, \<open>fetch\<close> and \<open>valid\<close> for the methods whose
  names start with an underscore). A raised exception is the value \<open>Inl e\<close>; the token
  cache, the clock, the two remote services and the trace of effects are the state that
  every operation takes and returns.
\<close>

section \<open>Python values\<close>

text \<open>
  The client is dynamically typed Python. The values that flow through it are JSON
  documents decoded by \<^verbatim>\<open>resp.json()\<close>, dictionaries built by the client and
  \<^verbatim>\<open>None\<close>. They are modelled by one datatype; \<open>JNull\<close> is Python's
  \<^verbatim>\<open>None\<close>. Numbers are integers (floating point numbers are not modelled).
  A dictionary is an association list in insertion order. A string is a list of
  characters, so \<open>length\<close> is Python's \<^verbatim>\<open>len\<close> on text within the 8-bit range.
\<close>

datatype json =
    JNull
  | JBool bool
  | JNum int
  | JStr string
  | JArr "json list"
  | JObj "(string \<times> json) list"

type_synonym pydict = "(string \<times> json) list"

datatype exc =
  NetworkError | ValueError | KeyError | IndexError | TypeError | AttributeError | OverflowError

text \<open>Python truth value testing (\<^verbatim>\<open>if x:\<close>).\<close>

fun truthy :: "json \<Rightarrow> bool" where
  "truthy JNull = False"
| "truthy (JBool b) = b"
| "truthy (JNum n) = (n \<noteq> 0)"
| "truthy (JStr s) = (s \<noteq> [])"
| "truthy (JArr xs) = (xs \<noteq> [])"
| "truthy (JObj m) = (m \<noteq> [])"

text \<open>Truth value of an \<^verbatim>\<open>Optional[str]\<close>.\<close>

fun truthy_opt :: "string option \<Rightarrow> bool" where
  "truthy_opt None = False"
| "truthy_opt (Some s) = (s \<noteq> [])"

text \<open>An \<^verbatim>\<open>Optional[str]\<close> interpolated into an f-string.\<close>

fun py_str :: "string option \<Rightarrow> string" where
  "py_str None = ''None''"
| "py_str (Some s) = s"

text \<open>A value between single quotes, \<^verbatim>\<open>'{x}'\<close> in an f-string.\<close>

definition quoted :: "string \<Rightarrow> string" where
  "quoted x = CHR 0x27 # x @ [CHR 0x27]"

text \<open>\<^verbatim>\<open>d[k] = v\<close>: an existing key keeps its position, a new key goes last.\<close>

fun dict_set :: "pydict \<Rightarrow> string \<Rightarrow> json \<Rightarrow> pydict" where
  "dict_set [] k v = [(k, v)]"
| "dict_set ((k', v') # d) k v = (if k' = k then (k, v) # d else (k', v') # dict_set d k v)"

text \<open>\<^verbatim>\<open>s.split(sep)[0]\<close> for a non-empty \<open>sep\<close>: the part of \<open>s\<close> before the
  first occurrence of \<open>sep\<close>, all of \<open>s\<close> when \<open>sep\<close> does not occur.\<close>

fun split_first :: "string \<Rightarrow> string \<Rightarrow> string" where
  "split_first sep [] = []"
| "split_first sep (c # cs) =
     (if take (length sep) (c # cs) = sep then [] else c # split_first sep cs)"

text \<open>\<^verbatim>\<open>sub in s\<close> on strings.\<close>

fun contains :: "string \<Rightarrow> string \<Rightarrow> bool" where
  "contains sub [] = (sub = [])"
| "contains sub (c # cs) = (take (length sub) (c # cs) = sub \<or> contains sub cs)"

section \<open>Configuration (config.py)\<close>

record environ =
  AZURE_TENANT_ID :: "string option"
  AZURE_CLIENT_ID :: "string option"
  AZURE_CLIENT_SECRET :: "string option"
  BC_ENVIRONMENT :: "string option"
  BC_COMPANY_ID :: "string option"

record azure_ad_config =
  tenant_id :: "string option"
  client_id :: "string option"
  client_secret :: "string option"
  authority :: "string option"

record bc_config =
  environment :: string
  company_id :: "string option"
  bc_tenant_id :: "string option"
  base_url :: "string option"

record app_config =
  azure_ad :: azure_ad_config
  bc :: bc_config

text \<open>The validator \<^verbatim>\<open>AzureADConfig.set_authority\<close>.\<close>

definition set_authority :: "azure_ad_config \<Rightarrow> azure_ad_config" where
  "set_authority a =
     (if \<not> truthy_opt (authority a) \<and> truthy_opt (tenant_id a)
      then a\<lparr>authority := Some (''https://login.microsoftonline.com/'' @ py_str (tenant_id a))\<rparr>
      else a)"

text \<open>The validator \<^verbatim>\<open>BusinessCentralConfig.set_base_url\<close>.\<close>

definition set_base_url :: "bc_config \<Rightarrow> bc_config" where
  "set_base_url b =
     (if \<not> truthy_opt (base_url b) \<and> truthy_opt (bc_tenant_id b)
      then b\<lparr>base_url := Some (''https://api.businesscentral.dynamics.com/v2.0/''
                 @ py_str (bc_tenant_id b) @ ''/'' @ environment b @ ''/api/v2.0'')\<rparr>
      else b)"

text \<open>\<^verbatim>\<open>AppConfig._load_azure\<close>: both branches build the same object.\<close>

definition load_azure :: "environ \<Rightarrow> azure_ad_config" where
  "load_azure env =
     set_authority \<lparr>tenant_id = AZURE_TENANT_ID env, client_id = AZURE_CLIENT_ID env,
                    client_secret = AZURE_CLIENT_SECRET env, authority = None\<rparr>"

text \<open>\<^verbatim>\<open>AppConfig._load_bc\<close>: \<^verbatim>\<open>BC_BASE_URL\<close> is ignored, the base URL is always
  derived from the tenant.\<close>

definition load_bc :: "environ \<Rightarrow> azure_ad_config \<Rightarrow> bc_config" where
  "load_bc env az =
     set_base_url
       \<lparr>environment = (case BC_ENVIRONMENT env of None \<Rightarrow> ''production'' | Some e \<Rightarrow> e),
        company_id = BC_COMPANY_ID env,
        bc_tenant_id = (if truthy_opt (tenant_id az) then tenant_id az else None),
        base_url = None\<rparr>"

definition AppConfig :: "environ \<Rightarrow> app_config" where
  "AppConfig env = (let az = load_azure env in \<lparr>azure_ad = az, bc = load_bc env az\<rparr>)"

section \<open>Endpoint builder (client.py, APIEndpointBuilder)\<close>

record endpoint_builder =
  eb_base_url :: "string option"
  eb_company_id :: "string option"

definition build_standard_url :: "endpoint_builder \<Rightarrow> string \<Rightarrow> string" where
  "build_standard_url b endpoint =
     py_str (eb_base_url b) @ ''/companies('' @ py_str (eb_company_id b) @ '')/'' @ endpoint"

text \<open>\<^verbatim>\<open>self.base_url.split('/api/v2.0')\<close> on \<^verbatim>\<open>None\<close> raises AttributeError.\<close>

definition build_custom_url ::
  "endpoint_builder \<Rightarrow> string \<Rightarrow> string \<Rightarrow> string \<Rightarrow> string \<Rightarrow> bool \<Rightarrow> exc + string" where
  "build_custom_url b publisher app_group version endpoint use_company =
     (case eb_base_url b of
        None \<Rightarrow> Inl AttributeError
      | Some base \<Rightarrow>
          (let base_without_version = split_first ''/api/v2.0'' base;
               custom_path = base_without_version @ ''/api/'' @ publisher @ ''/'' @ app_group
                               @ ''/'' @ version
           in if use_company
              then Inr (custom_path @ ''/companies('' @ py_str (eb_company_id b) @ '')/'' @ endpoint)
              else Inr (custom_path @ ''/'' @ endpoint)))"

section \<open>The network, the clock and the token cache\<close>

text \<open>
  An HTTP response as the client reads it: the status code, \<^verbatim>\<open>resp.text\<close>, and what
  \<^verbatim>\<open>resp.json()\<close> returns (\<open>None\<close> when it raises ValueError).
\<close>

record response =
  status_code :: int
  resp_text :: string
  resp_json :: "json option"

text \<open>An HTTP call either raises (timeout, connection error) or answers.\<close>

datatype reply = Raises | Responds response

text \<open>The form posted to the token endpoint and the request sent to Business Central;
  \<open>rq_bearer\<close> is the token interpolated into the Authorization header.\<close>

record token_request =
  tq_url :: string
  tq_client_id :: "string option"
  tq_client_secret :: "string option"
  tq_scope :: string

record request =
  rq_method :: string
  rq_url :: string
  rq_bearer :: json
  rq_params :: "pydict option"
  rq_json :: "pydict option"

text \<open>The error records of the client: the final record of \<^verbatim>\<open>_request\<close> (method,
  path, and the status with the first 200 characters of the body when a response was
  received) and the record of \<^verbatim>\<open>get_customers\<close>.\<close>

datatype log_record =
    RequestFailed string string "(int \<times> string) option"
  | CustomersFailed

text \<open>
  What the program does to its surroundings, in the order it happens: HTTP calls with
  their outcome (\<open>None\<close> when the call raised), sleeps, the clearing of the cached token
  after a 401, error-level log records and the line printed by \<^verbatim>\<open>_fetch\<close>. Debug,
  info and warning records are left out.
\<close>

datatype event =
    TokenPost token_request "response option"
  | ApiCall request "response option"
  | Sleep nat
  | TokenCleared
  | LogError log_record
  | PrintError int

text \<open>
  The state: the singleton \<^verbatim>\<open>token_manager\<close> (\<open>tm_token\<close>, \<open>tm_expires\<close>), the clock in
  whole seconds since 0001-01-01 (\<^verbatim>\<open>datetime.utcnow()\<close>), the behaviour of the two
  remote services as scripts (each entry: the seconds the call takes and its outcome,
  consumed one per call; an exhausted script raises), and the trace of events so far.
\<close>

record state =
  tm_token :: json
  tm_expires :: "int option"
  now :: int
  token_net :: "(nat \<times> reply) list"
  api_net :: "(nat \<times> reply) list"
  trace :: "event list"

type_synonym 'a io = "state \<Rightarrow> (exc + 'a) \<times> state"

definition emit :: "event \<Rightarrow> state \<Rightarrow> state" where
  "emit e s = s\<lparr>trace := trace s @ [e]\<rparr>"

definition bind :: "'a io \<Rightarrow> ('a \<Rightarrow> 'b io) \<Rightarrow> 'b io" where
  "bind f g s = (case f s of (Inl e, s') \<Rightarrow> (Inl e, s') | (Inr x, s') \<Rightarrow> g x s')"

text \<open>\<^verbatim>\<open>cli.post\<close> to the token endpoint.\<close>

definition token_post :: "token_request \<Rightarrow> state \<Rightarrow> response option \<times> state" where
  "token_post q s =
     (case token_net s of
        [] \<Rightarrow> (None, emit (TokenPost q None) s)
      | (d, Raises) # rest \<Rightarrow>
          (None, emit (TokenPost q None) (s\<lparr>now := now s + int d, token_net := rest\<rparr>))
      | (d, Responds r) # rest \<Rightarrow>
          (Some r, emit (TokenPost q (Some r)) (s\<lparr>now := now s + int d, token_net := rest\<rparr>)))"

text \<open>\<^verbatim>\<open>cli.request\<close> to Business Central.\<close>

definition api_request :: "request \<Rightarrow> state \<Rightarrow> response option \<times> state" where
  "api_request q s =
     (case api_net s of
        [] \<Rightarrow> (None, emit (ApiCall q None) s)
      | (d, Raises) # rest \<Rightarrow>
          (None, emit (ApiCall q None) (s\<lparr>now := now s + int d, api_net := rest\<rparr>))
      | (d, Responds r) # rest \<Rightarrow>
          (Some r, emit (ApiCall q (Some r)) (s\<lparr>now := now s + int d, api_net := rest\<rparr>)))"

text \<open>\<^verbatim>\<open>asyncio.sleep(n)\<close>.\<close>

definition sleep :: "nat \<Rightarrow> state \<Rightarrow> state" where
  "sleep n s = emit (Sleep n) (s\<lparr>now := now s + int n\<rparr>)"

section \<open>Token manager (azure_auth.py)\<close>

definition scope :: string where
  "scope = ''https://api.businesscentral.dynamics.com/.default''"

text \<open>\<^verbatim>\<open>AzureTokenManager._valid\<close>.\<close>

definition valid :: "state \<Rightarrow> bool" where
  "valid s = (tm_token s \<noteq> JNull \<and> (case tm_expires s of None \<Rightarrow> False | Some e \<Rightarrow> now s < e))"

text \<open>The last second a \<^verbatim>\<open>datetime\<close> can hold (9999-12-31 23:59:59).\<close>

definition datetime_max :: int where
  "datetime_max = 315537897599"

text \<open>
  \<^verbatim>\<open>datetime.utcnow() + timedelta(seconds=v)\<close>: \<open>v\<close> must be a number (a bool counts
  as one); a delta of more than 999999999 days and a date outside the years 1 to 9999
  raise OverflowError.
\<close>

definition expiry_after :: "int \<Rightarrow> json \<Rightarrow> exc + int" where
  "expiry_after t v =
     (case (case v of JNum n \<Rightarrow> Some n | JBool b \<Rightarrow> Some (if b then 1 else 0) | _ \<Rightarrow> None) of
        None \<Rightarrow> Inl TypeError
      | Some n \<Rightarrow>
          if \<bar>n div 86400\<bar> > 999999999 then Inl OverflowError
          else if t + n < 0 \<or> datetime_max < t + n then Inl OverflowError
          else Inr (t + n))"

text \<open>
  \<^verbatim>\<open>AzureTokenManager._fetch\<close>. There is no exception handler: a call that raises, a
  body that is not JSON, a body without \<^verbatim>\<open>access_token\<close> and an unusable
  \<^verbatim>\<open>expires_in\<close> all raise. \<^verbatim>\<open>_token\<close> is assigned before the expiry is computed.
\<close>

definition fetch :: "app_config \<Rightarrow> json io" where
  "fetch cfg s =
     (case token_post \<lparr>tq_url = py_str (authority (azure_ad cfg)) @ ''/oauth2/v2.0/token'',
                        tq_client_id = client_id (azure_ad cfg),
                        tq_client_secret = client_secret (azure_ad cfg),
                        tq_scope = scope\<rparr> s of
        (None, s1) \<Rightarrow> (Inl NetworkError, s1)
      | (Some resp, s1) \<Rightarrow>
          if status_code resp = 200 then
            (case resp_json resp of
               None \<Rightarrow> (Inl ValueError, s1)
             | Some (JObj j) \<Rightarrow>
                 (case map_of j ''access_token'' of
                    None \<Rightarrow> (Inl KeyError, s1)
                  | Some tok \<Rightarrow>
                      (let s2 = s1\<lparr>tm_token := tok\<rparr> in
                       case expiry_after (now s2)
                              (case map_of j ''expires_in'' of None \<Rightarrow> JNum 3600 | Some v \<Rightarrow> v) of
                         Inl e \<Rightarrow> (Inl e, s2)
                       | Inr t \<Rightarrow> (Inr tok, s2\<lparr>tm_expires := Some t\<rparr>)))
             | Some _ \<Rightarrow> (Inl TypeError, s1))
          else (Inr JNull, emit (PrintError (status_code resp)) s1))"

text \<open>\<^verbatim>\<open>AzureTokenManager.get_token\<close>.\<close>

definition get_token :: "app_config \<Rightarrow> json io" where
  "get_token cfg s =
     (if \<not> truthy_opt (client_id (azure_ad cfg)) \<or> \<not> truthy_opt (client_secret (azure_ad cfg))
         \<or> \<not> truthy_opt (tenant_id (azure_ad cfg))
      then (Inr JNull, s)
      else if valid s then (Inr (tm_token s), s)
      else fetch cfg s)"

section \<open>Request executor (client.py, BusinessCentralClient._request)\<close>

record client =
  base :: "string option"
  comp :: "string option"
  url_builder :: endpoint_builder
  retries :: nat
  timeout_s :: nat

text \<open>\<^verbatim>\<open>BusinessCentralClient.__init__\<close>.\<close>

definition BusinessCentralClient :: "app_config \<Rightarrow> client" where
  "BusinessCentralClient cfg =
     \<lparr>base = base_url (bc cfg), comp = company_id (bc cfg),
      url_builder = \<lparr>eb_base_url = base_url (bc cfg), eb_company_id = company_id (bc cfg)\<rparr>,
      retries = 3, timeout_s = 30\<rparr>"

text \<open>The arguments of one logical call, with the resolved URL.\<close>

record call =
  c_method :: string
  c_path_or_url :: string
  c_url :: string
  c_params :: "pydict option"
  c_data :: "pydict option"

text \<open>What \<^verbatim>\<open>_request\<close> returns for a 200, 201 or 204.\<close>

definition ok_result :: "response \<Rightarrow> json" where
  "ok_result resp =
     (if status_code resp = 204 then JObj [(''success'', JBool True)]
      else case resp_json resp of
             Some j \<Rightarrow> j
           | None \<Rightarrow> JObj [(''success'', JBool True), (''raw_response'', JStr (resp_text resp))])"

text \<open>The code after the loop: one error record, then \<^verbatim>\<open>return None\<close>.\<close>

definition after_loop :: "call \<Rightarrow> response option \<Rightarrow> json io" where
  "after_loop c resp s =
     (Inr JNull,
      emit (LogError (RequestFailed (c_method c) (c_path_or_url c)
              (case resp of
                 Some r \<Rightarrow> Some (status_code r, take 200 (resp_text r))
               | None \<Rightarrow> None))) s)"

text \<open>
  The loop \<^verbatim>\<open>for i in range(self._retries)\<close>, over the indices still to run;
  \<open>resp\<close> is the last response received. \<^verbatim>\<open>return\<close> leaves with a value,
  \<^verbatim>\<open>continue\<close> is the recursive call, \<^verbatim>\<open>break\<close> and the end of the range go to
  \<open>after_loop\<close>. Nothing catches an exception of \<open>get_token\<close> or of the HTTP call.
\<close>

fun request_loop :: "app_config \<Rightarrow> call \<Rightarrow> nat list \<Rightarrow> response option \<Rightarrow> json io" where
  "request_loop cfg c [] resp s = after_loop c resp s"
| "request_loop cfg c (i # rest) resp s =
     (case get_token cfg s of
        (Inl e, s1) \<Rightarrow> (Inl e, s1)
      | (Inr token, s1) \<Rightarrow>
          if \<not> truthy token then (Inr JNull, s1)
          else
            (case api_request \<lparr>rq_method = c_method c, rq_url = c_url c, rq_bearer = token,
                               rq_params = c_params c, rq_json = c_data c\<rparr> s1 of
               (None, s2) \<Rightarrow> (Inl NetworkError, s2)
             | (Some r, s2) \<Rightarrow>
                 if status_code r = 200 \<or> status_code r = 201 \<or> status_code r = 204
                 then (Inr (ok_result r), s2)
                 else if status_code r = 401
                 then request_loop cfg c rest (Some r) (emit TokenCleared (s2\<lparr>tm_token := JNull\<rparr>))
                 else if status_code r \<ge> 500
                 then request_loop cfg c rest (Some r) (sleep (2 ^ i) s2)
                 else after_loop c (Some r) s2))"

definition request ::
  "client \<Rightarrow> app_config \<Rightarrow> string \<Rightarrow> string \<Rightarrow> pydict option \<Rightarrow> pydict option \<Rightarrow> bool
     \<Rightarrow> json io" where
  "request cl cfg method path_or_url params data is_full_url =
     request_loop cfg
       \<lparr>c_method = method, c_path_or_url = path_or_url,
        c_url = (if is_full_url then path_or_url
                 else build_standard_url (url_builder cl) path_or_url),
        c_params = params, c_data = data\<rparr>
       [0..<retries cl] None"

section \<open>Domain operations (client.py)\<close>

subsection \<open>Reading a response\<close>

text \<open>\<^verbatim>\<open>res.get("value", [])\<close>: only a dictionary has \<^verbatim>\<open>get\<close>.\<close>

definition py_get_value :: "json \<Rightarrow> exc + json" where
  "py_get_value res =
     (case res of
        JObj m \<Rightarrow> Inr (case map_of m ''value'' of None \<Rightarrow> JArr [] | Some v \<Rightarrow> v)
      | _ \<Rightarrow> Inl AttributeError)"

text \<open>\<^verbatim>\<open>res.get("value", []) if res else []\<close>.\<close>

definition value_or_empty :: "json \<Rightarrow> exc + json" where
  "value_or_empty res = (if truthy res then py_get_value res else Inr (JArr []))"

text \<open>\<^verbatim>\<open>len(v)\<close>.\<close>

definition py_len :: "json \<Rightarrow> exc + nat" where
  "py_len v =
     (case v of
        JArr xs \<Rightarrow> Inr (length xs)
      | JStr x \<Rightarrow> Inr (length x)
      | JObj m \<Rightarrow> Inr (length m)
      | _ \<Rightarrow> Inl TypeError)"

text \<open>\<^verbatim>\<open>'value' in response\<close>.\<close>

definition py_in_value :: "json \<Rightarrow> exc + bool" where
  "py_in_value response =
     (case response of
        JObj m \<Rightarrow> Inr (map_of m ''value'' \<noteq> None)
      | JArr xs \<Rightarrow> Inr (JStr ''value'' \<in> set xs)
      | JStr x \<Rightarrow> Inr (contains ''value'' x)
      | _ \<Rightarrow> Inl TypeError)"

text \<open>\<^verbatim>\<open>response['value']\<close>.\<close>

definition py_item_value :: "json \<Rightarrow> exc + json" where
  "py_item_value response =
     (case response of
        JObj m \<Rightarrow> (case map_of m ''value'' of None \<Rightarrow> Inl KeyError | Some v \<Rightarrow> Inr v)
      | _ \<Rightarrow> Inl TypeError)"

text \<open>\<^verbatim>\<open>v[0]\<close>.\<close>

definition py_item_0 :: "json \<Rightarrow> exc + json" where
  "py_item_0 v =
     (case v of
        JArr xs \<Rightarrow> (case xs of [] \<Rightarrow> Inl IndexError | x # _ \<Rightarrow> Inr x)
      | JStr x \<Rightarrow> (case x of [] \<Rightarrow> Inl IndexError | ch # _ \<Rightarrow> Inr (JStr [ch]))
      | JObj m \<Rightarrow> Inl KeyError
      | _ \<Rightarrow> Inl TypeError)"

text \<open>
  \<^verbatim>\<open>if response and 'value' in response and response['value']:
      return response['value'][0]
  return None\<close>
\<close>

definition first_value :: "json \<Rightarrow> exc + json" where
  "first_value response =
     (if \<not> truthy response then Inr JNull
      else case py_in_value response of
             Inl e \<Rightarrow> Inl e
           | Inr False \<Rightarrow> Inr JNull
           | Inr True \<Rightarrow>
               (case py_item_value response of
                  Inl e \<Rightarrow> Inl e
                | Inr v \<Rightarrow> if truthy v then py_item_0 v else Inr JNull))"

definition lift :: "exc + 'a \<Rightarrow> 'a io" where
  "lift r s = (r, s)"

subsection \<open>Standard API\<close>

definition get_customers :: "client \<Rightarrow> app_config \<Rightarrow> int \<Rightarrow> json io" where
  "get_customers cl cfg topn =
     bind (request cl cfg ''GET'' ''customers'' (Some [(''$top'', JNum topn)]) None False)
       (\<lambda>res s.
          if truthy res
          then (case py_get_value res of
                  Inl e \<Rightarrow> (Inl e, s)
                | Inr v \<Rightarrow> (case py_len v of Inl e \<Rightarrow> (Inl e, s) | Inr _ \<Rightarrow> (value_or_empty res, s)))
          else (value_or_empty res, emit (LogError CustomersFailed) s))"

definition get_customer :: "client \<Rightarrow> app_config \<Rightarrow> string \<Rightarrow> json io" where
  "get_customer cl cfg cid = request cl cfg ''GET'' (''customers('' @ cid @ '')'') None None False"

definition get_customer_by_id :: "client \<Rightarrow> app_config \<Rightarrow> string \<Rightarrow> json io" where
  "get_customer_by_id cl cfg customer_id = get_customer cl cfg customer_id"

definition get_items :: "client \<Rightarrow> app_config \<Rightarrow> int \<Rightarrow> json io" where
  "get_items cl cfg topn =
     bind (request cl cfg ''GET'' ''items'' (Some [(''$top'', JNum topn)]) None False)
       (\<lambda>res. lift (value_or_empty res))"

definition get_item_by_number :: "client \<Rightarrow> app_config \<Rightarrow> string \<Rightarrow> json io" where
  "get_item_by_number cl cfg item_no =
     bind (request cl cfg ''GET'' (''items('' @ item_no @ '')'') None None False)
       (\<lambda>result.
          if truthy result then lift (Inr result)
          else bind (request cl cfg ''GET'' ''items''
                       (Some [(''$filter'', JStr (''number eq '' @ quoted item_no)),
                              (''$top'', JNum 1)]) None False)
                 (\<lambda>res. lift (first_value res)))"

definition get_orders :: "client \<Rightarrow> app_config \<Rightarrow> int \<Rightarrow> json io" where
  "get_orders cl cfg topn =
     bind (request cl cfg ''GET'' ''salesOrders'' (Some [(''$top'', JNum topn)]) None False)
       (\<lambda>res. lift (value_or_empty res))"

definition get_sales_orders :: "client \<Rightarrow> app_config \<Rightarrow> string \<Rightarrow> int \<Rightarrow> json io" where
  "get_sales_orders cl cfg filter_query topn =
     (let params = [(''$top'', JNum topn)];
          params = (if filter_query \<noteq> [] then dict_set params ''$filter'' (JStr filter_query)
                    else params)
      in bind (request cl cfg ''GET'' ''salesOrders'' (Some params) None False)
           (\<lambda>res. lift (value_or_empty res)))"

definition create_customer :: "client \<Rightarrow> app_config \<Rightarrow> pydict \<Rightarrow> json io" where
  "create_customer cl cfg data = request cl cfg ''POST'' ''customers'' None (Some data) False"

definition get_currency_exchange_rates ::
  "client \<Rightarrow> app_config \<Rightarrow> string option \<Rightarrow> int \<Rightarrow> json io" where
  "get_currency_exchange_rates cl cfg currency_code topn =
     (let params = [(''$top'', JNum topn)];
          params = (if truthy_opt currency_code
                    then dict_set params ''$filter''
                           (JStr (''currencyCode eq '' @ quoted (py_str currency_code)))
                    else params)
      in bind (request cl cfg ''GET'' ''currencyExchangeRates'' (Some params) None False)
           (\<lambda>res. lift (value_or_empty res)))"

subsection \<open>Custom delivery API\<close>

text \<open>\<^verbatim>\<open>sep.join(xs)\<close>.\<close>

fun join :: "string \<Rightarrow> string list \<Rightarrow> string" where
  "join sep [] = []"
| "join sep [x] = x"
| "join sep (x # y # ys) = x @ sep @ join sep (y # ys)"

text \<open>\<^verbatim>\<open>filters.get(k)\<close> when it is truthy: the key is present with a non-empty
  string.\<close>

definition get_truthy :: "(string \<times> string) list \<Rightarrow> string \<Rightarrow> string option" where
  "get_truthy f k = (case map_of f k of Some v \<Rightarrow> if v = [] then None else Some v | None \<Rightarrow> None)"

text \<open>\<^verbatim>\<open>params.get("$filter", "")\<close>; the key only ever holds a string.\<close>

definition get_filter :: "pydict \<Rightarrow> string" where
  "get_filter params = (case map_of params ''$filter'' of Some (JStr fe) \<Rightarrow> fe | _ \<Rightarrow> [])"

text \<open>The query parameters of \<^verbatim>\<open>get_deliveries\<close>: the three steps on
  \<^verbatim>\<open>customer_id\<close>, on \<^verbatim>\<open>status\<close> and on the two dates, in the source's
  order.\<close>

definition with_customer :: "(string \<times> string) list \<Rightarrow> pydict \<Rightarrow> pydict" where
  "with_customer f params =
     (case get_truthy f ''customer_id'' of
        Some v \<Rightarrow> dict_set params ''$filter'' (JStr (''customerId eq '' @ quoted v))
      | None \<Rightarrow> params)"

definition with_status :: "(string \<times> string) list \<Rightarrow> pydict \<Rightarrow> pydict" where
  "with_status f params =
     (case get_truthy f ''status'' of
        Some v \<Rightarrow>
          (let filter_expr = get_filter params;
               filter_expr = (if filter_expr \<noteq> [] then filter_expr @ '' and status eq '' @ quoted v
                              else ''status eq '' @ quoted v)
           in dict_set params ''$filter'' (JStr filter_expr))
      | None \<Rightarrow> params)"

definition with_dates :: "(string \<times> string) list \<Rightarrow> pydict \<Rightarrow> pydict" where
  "with_dates f params =
     (if get_truthy f ''date_from'' \<noteq> None \<or> get_truthy f ''date_to'' \<noteq> None then
        (let date_filter = [];
             date_filter = (case get_truthy f ''date_from'' of
                              Some v \<Rightarrow> date_filter @ [''deliveryDate ge '' @ v]
                            | None \<Rightarrow> date_filter);
             date_filter = (case get_truthy f ''date_to'' of
                              Some v \<Rightarrow> date_filter @ [''deliveryDate le '' @ v]
                            | None \<Rightarrow> date_filter)
         in if date_filter \<noteq> [] then
              (let filter_expr = get_filter params;
                   date_expr = join '' and '' date_filter;
                   filter_expr = (if filter_expr \<noteq> [] then filter_expr @ '' and ('' @ date_expr @ '')''
                                  else date_expr)
               in dict_set params ''$filter'' (JStr filter_expr))
            else params)
      else params)"

definition deliveries_params :: "(string \<times> string) list option \<Rightarrow> int \<Rightarrow> pydict" where
  "deliveries_params filters topn =
     (let params = [(''$top'', JNum topn)]
      in case filters of
           None \<Rightarrow> params
         | Some f \<Rightarrow> if f = [] then params else with_dates f (with_status f (with_customer f params)))"

text \<open>The URL of the delivery API for an endpoint: \<^verbatim>\<open>build_custom_url\<close> with the
  publisher, group and version every method passes, company-scoped.\<close>

definition delivery_url :: "client \<Rightarrow> string \<Rightarrow> exc + string" where
  "delivery_url cl endpoint =
     build_custom_url (url_builder cl) ''techSphereDynamics'' ''delivery'' ''v1.0'' endpoint True"

definition get_deliveries ::
  "client \<Rightarrow> app_config \<Rightarrow> (string \<times> string) list option \<Rightarrow> int \<Rightarrow> json io" where
  "get_deliveries cl cfg filters topn =
     (let params = deliveries_params filters topn
      in bind (lift (delivery_url cl ''deliveries''))
           (\<lambda>url. bind (request cl cfg ''GET'' url (Some params) None True)
                     (\<lambda>res. lift (value_or_empty res))))"

definition get_delivery :: "client \<Rightarrow> app_config \<Rightarrow> string \<Rightarrow> json io" where
  "get_delivery cl cfg delivery_id =
     (if length delivery_id > 20 \<and> CHR ''-'' \<in> set delivery_id
      then bind (lift (delivery_url cl (''deliveries('' @ delivery_id @ '')'')))
             (\<lambda>url. request cl cfg ''GET'' url None None True)
      else bind (lift (delivery_url cl ''deliveries''))
             (\<lambda>url. bind (request cl cfg ''GET'' url
                             (Some [(''$filter'', JStr (''no eq '' @ quoted delivery_id)),
                                    (''$top'', JNum 1)]) None True)
                       (\<lambda>response. lift (first_value response))))"

definition update_delivery_status ::
  "client \<Rightarrow> app_config \<Rightarrow> string \<Rightarrow> string \<Rightarrow> string \<Rightarrow> json io" where
  "update_delivery_status cl cfg delivery_id status notes =
     (let data = [(''status'', JStr status), (''lastUpdateDate'', JNull)];
          data = (if notes \<noteq> [] then dict_set data ''notes'' (JStr notes) else data)
      in bind (lift (delivery_url cl (''deliveries('' @ quoted delivery_id @ '')'')))
           (\<lambda>url. request cl cfg ''PATCH'' url None (Some data) True))"

definition get_delivery_routes ::
  "client \<Rightarrow> app_config \<Rightarrow> string \<Rightarrow> string \<Rightarrow> string option \<Rightarrow> json io" where
  "get_delivery_routes cl cfg date_from date_to driver_id =
     (let expr = ''routeDate ge '' @ date_from @ '' and routeDate le '' @ date_to;
          expr = (if truthy_opt driver_id
                  then expr @ '' and driverId eq '' @ quoted (py_str driver_id) else expr)
      in bind (lift (delivery_url cl ''routes''))
           (\<lambda>url. bind (request cl cfg ''GET'' url (Some [(''$filter'', JStr expr)]) None True)
                     (\<lambda>res. lift (value_or_empty res))))"

definition optimize_route :: "client \<Rightarrow> app_config \<Rightarrow> pydict \<Rightarrow> json io" where
  "optimize_route cl cfg route_data =
     bind (lift (delivery_url cl ''routes/optimize''))
       (\<lambda>url. request cl cfg ''POST'' url None (Some route_data) True)"

definition get_inventory_status :: "client \<Rightarrow> app_config \<Rightarrow> string option \<Rightarrow> json io" where
  "get_inventory_status cl cfg warehouse_id =
     (let params = (if truthy_opt warehouse_id
                    then [(''$filter'', JStr (''warehouseId eq '' @ quoted (py_str warehouse_id)))]
                    else [])
      in bind (lift (delivery_url cl ''inventory''))
           (\<lambda>url. bind (request cl cfg ''GET'' url (Some params) None True)
                     (\<lambda>res. lift (value_or_empty res))))"

section \<open>Observations on a run\<close>

text \<open>The client identity is complete (the test of \<^verbatim>\<open>get_token\<close>, line 59).\<close>

definition configured :: "app_config \<Rightarrow> bool" where
  "configured cfg =
     (truthy_opt (client_id (azure_ad cfg)) \<and> truthy_opt (client_secret (azure_ad cfg))
      \<and> truthy_opt (tenant_id (azure_ad cfg)))"

text \<open>The calls to Business Central in a trace (one per attempt) and the sleeps.\<close>

fun api_calls :: "event list \<Rightarrow> (request \<times> response option) list" where
  "api_calls [] = []"
| "api_calls (ApiCall q r # es) = (q, r) # api_calls es"
| "api_calls (_ # es) = api_calls es"

fun sleeps :: "event list \<Rightarrow> nat list" where
  "sleeps [] = []"
| "sleeps (Sleep n # es) = n # sleeps es"
| "sleeps (_ # es) = sleeps es"

text \<open>What was sent in each call to Business Central, the bearer token apart: method,
  URL, query parameters and JSON body.\<close>

definition sent :: "event list \<Rightarrow> (string \<times> string \<times> pydict option \<times> pydict option) list" where
  "sent es = map (\<lambda>(q, r). (rq_method q, rq_url q, rq_params q, rq_json q)) (api_calls es)"

text \<open>The number of 401 responses and of token invalidations in a trace.\<close>

fun unauthorized :: "event list \<Rightarrow> nat" where
  "unauthorized [] = 0"
| "unauthorized (ApiCall q (Some r) # es) =
     (if status_code r = 401 then Suc (unauthorized es) else unauthorized es)"
| "unauthorized (_ # es) = unauthorized es"

fun invalidations :: "event list \<Rightarrow> nat" where
  "invalidations [] = 0"
| "invalidations (TokenCleared # es) = Suc (invalidations es)"
| "invalidations (_ # es) = invalidations es"

text \<open>
  The order of events around a 401, as an automaton reading the trace. \<open>Idle\<close>: no
  401 is pending. \<open>Got401\<close>: the last event is a 401 response; the only event allowed
  next is the invalidation. \<open>Cleared\<close>: the token was invalidated; before another
  call to Business Central the token endpoint must be called, and no second invalidation
  may happen. \<open>Bad\<close>: the order was violated. An invalidation anywhere else is a
  violation too.
\<close>

datatype phase = Idle | Got401 | Cleared | Bad

fun step :: "phase \<Rightarrow> event \<Rightarrow> phase" where
  "step Bad e = Bad"
| "step Idle (ApiCall q (Some r)) = (if status_code r = 401 then Got401 else Idle)"
| "step Idle TokenCleared = Bad"
| "step Idle e = Idle"
| "step Got401 TokenCleared = Cleared"
| "step Got401 e = Bad"
| "step Cleared (TokenPost q r) = Idle"
| "step Cleared (ApiCall q r) = Bad"
| "step Cleared TokenCleared = Bad"
| "step Cleared e = Cleared"

definition phase_of :: "state \<Rightarrow> phase" where
  "phase_of s = foldl step Idle (trace s)"

text \<open>A trace respects the order when the automaton ends in \<open>Idle\<close>, or in
  \<open>Cleared\<close> (the run ended right after an invalidation).\<close>

definition in_order :: "event list \<Rightarrow> bool" where
  "in_order es = (foldl step Idle es = Idle \<or> foldl step Idle es = Cleared)"

definition ready :: "state \<Rightarrow> bool" where
  "ready s = (phase_of s = Idle \<or> (phase_of s = Cleared \<and> tm_token s = JNull))"

section \<open>Scenarios\<close>

text \<open>A complete environment, and one without the tenant.\<close>

definition full_env :: environ where
  "full_env = \<lparr>AZURE_TENANT_ID = Some ''T'', AZURE_CLIENT_ID = Some ''app'',
               AZURE_CLIENT_SECRET = Some ''secret'', BC_ENVIRONMENT = Some ''prod'',
               BC_COMPANY_ID = Some ''C''\<rparr>"

definition no_tenant_env :: environ where
  "no_tenant_env = \<lparr>AZURE_TENANT_ID = None, AZURE_CLIENT_ID = Some ''app'',
                    AZURE_CLIENT_SECRET = Some ''secret'', BC_ENVIRONMENT = Some ''prod'',
                    BC_COMPANY_ID = Some ''C''\<rparr>"

definition r500 :: response where
  "r500 = \<lparr>status_code = 500, resp_text = ''Internal Server Error'', resp_json = None\<rparr>"

definition r503 :: response where
  "r503 = \<lparr>status_code = 503, resp_text = ''Service Unavailable'', resp_json = None\<rparr>"

definition r401 :: response where
  "r401 = \<lparr>status_code = 401, resp_text = ''Unauthorized'', resp_json = None\<rparr>"

definition r200 :: response where
  "r200 = \<lparr>status_code = 200, resp_text = ''{...}'',
           resp_json = Some (JObj [(''value'', JArr [JObj [(''no'', JStr ''DEL-001'')]])])\<rparr>"

definition token_200 :: response where
  "token_200 = \<lparr>status_code = 200, resp_text = ''{...}'',
                resp_json = Some (JObj [(''access_token'', JStr ''tok2''),
                                        (''expires_in'', JNum 3600)])\<rparr>"

text \<open>A state with a token cached until second 5000, at second 1000; and one with an
  empty cache.\<close>

definition cached :: "(nat \<times> reply) list \<Rightarrow> (nat \<times> reply) list \<Rightarrow> state" where
  "cached tn an = \<lparr>tm_token = JStr ''tok'', tm_expires = Some 5000, now = 1000,
                   token_net = tn, api_net = an, trace = []\<rparr>"

definition fresh :: "(nat \<times> reply) list \<Rightarrow> (nat \<times> reply) list \<Rightarrow> state" where
  "fresh tn an = \<lparr>tm_token = JNull, tm_expires = None, now = 1000,
                  token_net = tn, api_net = an, trace = []\<rparr>"

text \<open>The configuration and the client of the complete environment, and the call
  \<^verbatim>\<open>_request("GET", "customers")\<close> on it.\<close>

definition demo_cfg :: app_config where
  "demo_cfg = AppConfig full_env"

definition demo_client :: client where
  "demo_client = BusinessCentralClient demo_cfg"

definition demo_call :: call where
  "demo_call = \<lparr>c_method = ''GET'', c_path_or_url = ''customers'',
                 c_url = build_standard_url (url_builder demo_client) ''customers'',
                 c_params = None, c_data = None\<rparr>"

definition demo_request :: "json \<Rightarrow> request" where
  "demo_request token = \<lparr>rq_method = c_method demo_call, rq_url = c_url demo_call,
                           rq_bearer = token, rq_params = c_params demo_call,
                           rq_json = c_data demo_call\<rparr>"

definition demo_token_request :: token_request where
  "demo_token_request =
     \<lparr>tq_url = ''https://login.microsoftonline.com/T/oauth2/v2.0/token'',
      tq_client_id = Some ''app'', tq_client_secret = Some ''secret'',
      tq_scope = ''https://api.businesscentral.dynamics.com/.default''\<rparr>"

section \<open>Basic facts\<close>

lemma api_calls_append [simp]: "api_calls (xs @ ys) = api_calls xs @ api_calls ys"
  by (induction xs rule: api_calls.induct) auto

lemma sleeps_append [simp]: "sleeps (xs @ ys) = sleeps xs @ sleeps ys"
  by (induction xs rule: sleeps.induct) auto

lemma sent_append [simp]: "sent (xs @ ys) = sent xs @ sent ys"
  by (simp add: sent_def)

lemma emit_fields [simp]:
  "tm_token (emit e s) = tm_token s" "tm_expires (emit e s) = tm_expires s"
  "now (emit e s) = now s" "token_net (emit e s) = token_net s"
  "api_net (emit e s) = api_net s" "trace (emit e s) = trace s @ [e]"
  by (simp_all add: emit_def)

lemma upt_3: "[0..<3] = [0, 1, 2]"
  by (simp add: upt_rec)

lemma split_first_at:
  "\<forall>i<length p. take (length sep) (drop i (p @ sep @ q)) \<noteq> sep \<Longrightarrow>
     split_first sep (p @ sep @ q) = p"
proof (induction p)
  case Nil
  have "take (length sep) (sep @ q) = sep" by simp
  then show ?case by (cases "sep @ q") auto
next
  case (Cons a p)
  from Cons.prems have first: "take (length sep) (a # p @ sep @ q) \<noteq> sep" by auto
  from Cons.prems have "\<forall>i<length p. take (length sep) (drop i (p @ sep @ q)) \<noteq> sep" by auto
  with Cons.IH have "split_first sep (p @ sep @ q) = p" by blast
  with first show ?case by simp
qed

section \<open>Facts about the token manager and one attempt\<close>

lemmas scenario_defs =
  full_env_def no_tenant_env_def r500_def r503_def r401_def r200_def token_200_def cached_def fresh_def
  demo_cfg_def demo_client_def demo_call_def demo_request_def demo_token_request_def

lemmas model_defs =
  AppConfig_def load_azure_def load_bc_def set_authority_def set_base_url_def
  BusinessCentralClient_def build_standard_url_def build_custom_url_def delivery_url_def
  request_def upt_3 get_token_def fetch_def token_post_def valid_def expiry_after_def
  datetime_max_def scope_def api_request_def sleep_def emit_def after_loop_def ok_result_def
  bind_def lift_def Let_def

lemma phase_emit [simp]: "phase_of (emit e s) = step (phase_of s) e"
  by (simp add: phase_of_def emit_def)

lemma phase_update [simp]:
  "phase_of (s\<lparr>now := t\<rparr>) = phase_of s"
  "phase_of (s\<lparr>tm_token := k\<rparr>) = phase_of s"
  "phase_of (s\<lparr>tm_expires := x\<rparr>) = phase_of s"
  "phase_of (s\<lparr>token_net := tn\<rparr>) = phase_of s"
  "phase_of (s\<lparr>api_net := an\<rparr>) = phase_of s"
  by (simp_all add: phase_of_def)

text \<open>The token endpoint is called at most once by \<open>fetch\<close>; Business Central is not
  called and nothing sleeps.\<close>

lemma token_post_trace:
  "token_post q s = (r, s1) \<Longrightarrow>
     api_calls (trace s1) = api_calls (trace s) \<and> sleeps (trace s1) = sleeps (trace s)
     \<and> api_net s1 = api_net s \<and> (ready s \<longrightarrow> phase_of s1 = Idle)"
  by (auto simp: token_post_def ready_def split: list.splits reply.splits)

lemma fetch_trace:
  assumes "fetch cfg s = (r, s1)"
  shows "api_calls (trace s1) = api_calls (trace s) \<and> sleeps (trace s1) = sleeps (trace s)
     \<and> api_net s1 = api_net s \<and> (ready s \<longrightarrow> phase_of s1 = Idle)"
proof -
  let ?q = "\<lparr>tq_url = py_str (authority (azure_ad cfg)) @ ''/oauth2/v2.0/token'',
             tq_client_id = client_id (azure_ad cfg),
             tq_client_secret = client_secret (azure_ad cfg), tq_scope = scope\<rparr>"
  obtain ro s0 where tp: "token_post ?q s = (ro, s0)"
    by (cases "token_post ?q s")
  note t = token_post_trace [OF tp]
  from assms tp t show ?thesis
    by (auto simp: fetch_def Let_def split: option.splits if_splits json.splits sum.splits)
qed

lemma get_token_trace:
  assumes "get_token cfg s = (r, s1)"
  shows "api_calls (trace s1) = api_calls (trace s) \<and> sleeps (trace s1) = sleeps (trace s)
     \<and> api_net s1 = api_net s
     \<and> (ready s \<longrightarrow> phase_of s1 = Idle \<or> (s1 = s \<and> r = Inr JNull))"
  using assms fetch_trace [of cfg s r s1]
  by (auto simp: get_token_def valid_def ready_def split: if_splits)

text \<open>A token that \<open>get_token\<close> returns is the one in the cache afterwards, and only a
  complete identity yields one.\<close>

lemma fetch_result:
  "fetch cfg s = (Inr tok, s1) \<Longrightarrow> tok \<noteq> JNull \<Longrightarrow> tm_token s1 = tok"
  by (auto simp: fetch_def token_post_def Let_def
           split: list.splits reply.splits option.splits if_splits json.splits sum.splits)

lemma get_token_result:
  assumes "get_token cfg s = (Inr tok, s1)" and "truthy tok"
  shows "configured cfg \<and> tm_token s1 = tok"
proof -
  from assms(2) have nn: "tok \<noteq> JNull" by auto
  from assms(1) nn show ?thesis
    using fetch_result [of cfg s tok s1]
    by (auto simp: get_token_def configured_def split: if_splits)
qed


lemma get_token_unconfigured:
  "\<not> configured cfg \<Longrightarrow> get_token cfg s = (Inr JNull, s)"
  by (auto simp: get_token_def configured_def)


lemma api_request_trace:
  assumes "api_request q s1 = (ro, s2)"
  shows "api_calls (trace s2) = api_calls (trace s1) @ [(q, ro)]
       \<and> (phase_of s1 = Idle \<longrightarrow>
            phase_of s2 = (case ro of Some r \<Rightarrow> if status_code r = 401 then Got401 else Idle
                           | None \<Rightarrow> Idle))"
  using assms by (auto simp: api_request_def split: list.splits reply.splits)

lemma after_loop_trace:
  "after_loop c resp s = (res, s') \<Longrightarrow>
     api_calls (trace s') = api_calls (trace s)
     \<and> (ready s \<longrightarrow> phase_of s' = Idle \<or> phase_of s' = Cleared)"
  by (auto simp: after_loop_def ready_def)

section \<open>Facts about the loop\<close>

text \<open>
  From a state where no 401 is pending (or the token was just cleared), the loop leaves
  the trace in order; it calls Business Central at most once per index, always with the
  method, URL, parameters and body of the call.
\<close>

lemma request_loop_trace:
  "request_loop cfg c ixs resp s = (res, s') \<Longrightarrow>
     (ready s \<longrightarrow> phase_of s' = Idle \<or> phase_of s' = Cleared)
     \<and> (\<exists>n\<le>length ixs. sent (trace s') =
            sent (trace s) @ replicate n (c_method c, c_url c, c_params c, c_data c))"
proof (induction ixs arbitrary: s resp)
  case Nil
  then show ?case using after_loop_trace [of c resp s res s'] by (simp add: sent_def)
next
  case (Cons i ixs)
  let ?d = "(c_method c, c_url c, c_params c, c_data c)"
  obtain r1 s1 where gt: "get_token cfg s = (r1, s1)" by (cases "get_token cfg s")
  note g = get_token_trace [OF gt]
  have stop: ?case if "s' = s1" "r1 = Inr JNull \<or> phase_of s1 = Idle \<or> (\<exists>e. r1 = Inl e)"
  proof -
    have "sent (trace s') = sent (trace s) @ replicate 0 ?d"
      using that g by (simp add: sent_def)
    moreover have "ready s \<longrightarrow> phase_of s' = Idle \<or> phase_of s' = Cleared"
      using that g by (auto simp: ready_def)
    ultimately show ?thesis by blast
  qed
  show ?case
  proof (cases r1)
    case (Inl e)
    with Cons.prems gt have "s' = s1" by simp
    with Inl stop show ?thesis by blast
  next
    case (Inr token)
    show ?thesis
    proof (cases "truthy token")
      case False
      with Cons.prems gt Inr have s': "s' = s1" by simp
      from g Inr have "ready s \<longrightarrow> phase_of s1 = Idle \<or> phase_of s1 = Cleared"
        by (auto simp: ready_def)
      moreover have "sent (trace s') = sent (trace s) @ replicate 0 ?d"
        using s' g by (simp add: sent_def)
      ultimately show ?thesis using s' by blast
    next
      case True
      with g Inr have idle: "ready s \<longrightarrow> phase_of s1 = Idle" by auto
      let ?q = "\<lparr>rq_method = c_method c, rq_url = c_url c, rq_bearer = token,
                 rq_params = c_params c, rq_json = c_data c\<rparr>"
      obtain ro s2 where ar: "api_request ?q s1 = (ro, s2)" by (cases "api_request ?q s1")
      note a = api_request_trace [OF ar]
      have sent2: "sent (trace s2) = sent (trace s) @ replicate 1 ?d"
        using a g by (simp add: sent_def)
      have one: ?thesis
        if "s' = s2" "ready s \<longrightarrow> phase_of s2 = Idle"
      proof -
        have "\<exists>n\<le>length (i # ixs). sent (trace s') = sent (trace s) @ replicate n ?d"
          using sent2 that(1) by (intro exI [of _ 1]) simp
        with that show ?thesis by blast
      qed
      have more: ?thesis
        if eq: "request_loop cfg c ixs (Some r) s3 = (res, s')"
          and rd: "ready s \<longrightarrow> ready s3" and tr: "sent (trace s3) = sent (trace s2)" for r s3
      proof -
        from Cons.IH [OF eq] obtain n where n: "n \<le> length ixs"
          "sent (trace s') = sent (trace s3) @ replicate n ?d"
          and ph: "ready s3 \<longrightarrow> phase_of s' = Idle \<or> phase_of s' = Cleared"
          by blast
        have "sent (trace s') = sent (trace s) @ replicate (Suc n) ?d"
          using n(2) tr sent2 by (simp add: replicate_app_Cons_same)
        with n(1) have "\<exists>k\<le>length (i # ixs). sent (trace s') = sent (trace s) @ replicate k ?d"
          by (intro exI [of _ "Suc n"]) simp
        with ph rd show ?thesis by blast
      qed
      show ?thesis
      proof (cases ro)
        case None
        with Cons.prems gt Inr True ar have "s' = s2" by simp
        moreover from a idle None have "ready s \<longrightarrow> phase_of s2 = Idle" by simp
        ultimately show ?thesis by (rule one)
      next
        case (Some r)
        consider (ok) "status_code r = 200 \<or> status_code r = 201 \<or> status_code r = 204"
          | (unauth) "status_code r = 401"
          | (server) "status_code r \<ge> 500" "status_code r \<noteq> 401"
              "\<not> (status_code r = 200 \<or> status_code r = 201 \<or> status_code r = 204)"
          | (other) "\<not> (status_code r = 200 \<or> status_code r = 201 \<or> status_code r = 204)"
              "status_code r \<noteq> 401" "\<not> status_code r \<ge> 500"
          by linarith
        then show ?thesis
        proof cases
          case ok
          with Cons.prems gt Inr True ar Some have "s' = s2" by auto
          moreover from a idle Some ok have "ready s \<longrightarrow> phase_of s2 = Idle" by auto
          ultimately show ?thesis by (rule one)
        next
          case unauth
          let ?s3 = "emit TokenCleared (s2\<lparr>tm_token := JNull\<rparr>)"
          have "request_loop cfg c ixs (Some r) ?s3 = (res, s')"
            using Cons.prems gt Inr True ar Some unauth by simp
          moreover have "ready s \<longrightarrow> ready ?s3"
            using a idle Some unauth by (simp add: ready_def)
          moreover have "sent (trace ?s3) = sent (trace s2)" by (simp add: sent_def)
          ultimately show ?thesis by (rule more)
        next
          case server
          let ?s3 = "sleep (2 ^ i) s2"
          have "request_loop cfg c ixs (Some r) ?s3 = (res, s')"
            using Cons.prems gt Inr True ar Some server by simp
          moreover have "ready s \<longrightarrow> ready ?s3"
            using a idle Some server by (simp add: ready_def sleep_def)
          moreover have "sent (trace ?s3) = sent (trace s2)" by (simp add: sent_def sleep_def)
          ultimately show ?thesis by (rule more)
        next
          case other
          have eq: "after_loop c (Some r) s2 = (res, s')"
            using Cons.prems gt Inr True ar Some other by simp
          have "ready s \<longrightarrow> ready s2" using a idle Some other by (simp add: ready_def)
          with after_loop_trace [OF eq]
          have ph: "ready s \<longrightarrow> phase_of s' = Idle \<or> phase_of s' = Cleared" by blast
          have "sent (trace s') = sent (trace s) @ replicate 1 ?d"
            using after_loop_trace [OF eq] sent2 by (simp add: sent_def)
          then have "\<exists>n\<le>length (i # ixs). sent (trace s') = sent (trace s) @ replicate n ?d"
            by (intro exI [of _ 1]) simp
          with ph show ?thesis by blast
        qed
      qed
    qed
  qed
qed

lemma request_sent:
  "\<exists>n\<le>retries cl. sent (trace (snd (request cl cfg m p params data full s))) =
      sent (trace s) @ replicate n
        (m, (if full then p else build_standard_url (url_builder cl) p), params, data)"
proof -
  let ?c = "\<lparr>c_method = m, c_path_or_url = p,
             c_url = (if full then p else build_standard_url (url_builder cl) p),
             c_params = params, c_data = data\<rparr>"
  obtain res s' where r: "request_loop cfg ?c [0..<retries cl] None s = (res, s')"
    by (cases "request_loop cfg ?c [0..<retries cl] None s")
  from request_loop_trace [OF r] r show ?thesis
    by (simp add: request_def)
qed

lemma request_in_order:
  assumes "trace s = []"
  shows "in_order (trace (snd (request cl cfg m p params data full s)))"
proof -
  let ?c = "\<lparr>c_method = m, c_path_or_url = p,
             c_url = (if full then p else build_standard_url (url_builder cl) p),
             c_params = params, c_data = data\<rparr>"
  obtain res s' where r: "request_loop cfg ?c [0..<retries cl] None s = (res, s')"
    by (cases "request_loop cfg ?c [0..<retries cl] None s")
  from assms have "ready s" by (simp add: ready_def phase_of_def)
  with request_loop_trace [OF r] r show ?thesis
    by (simp add: request_def in_order_def phase_of_def)
qed

text \<open>Every invalidation answers one 401: in a trace that is in order the two counts
  agree, up to a 401 still waiting for its invalidation.\<close>

lemma invalidations_balance:
  "foldl step q es \<noteq> Bad \<Longrightarrow>
     unauthorized es + (if q = Got401 then 1 else 0)
       = invalidations es + (if foldl step q es = Got401 then 1 else 0)"
proof (induction es arbitrary: q)
  case Nil
  then show ?case by simp
next
  case (Cons e es)
  have bad: "foldl step Bad es = Bad" for es
    by (induction es) auto
  from Cons.prems have nb: "step q e \<noteq> Bad"
    using bad by (cases "step q e = Bad") auto
  from Cons.prems have "foldl step (step q e) es \<noteq> Bad" by simp
  from Cons.IH [OF this] nb show ?case
    by (cases "(q, e)" rule: step.cases) (auto split: if_splits)
qed

section \<open>Facts about the operations\<close>

text \<open>
  Without a complete client identity no attempt is made: \<^verbatim>\<open>_request\<close> returns
  \<^verbatim>\<open>None\<close> and leaves the state as it was (no call to the token endpoint, no call
  to Business Central). The operations of the standard API then return an empty list or
  \<^verbatim>\<open>None\<close>; so do the operations of the delivery API when the client has a base
  URL.
\<close>

lemma request_unconfigured:
  assumes "\<not> configured cfg" and "0 < retries cl"
  shows "request cl cfg m p params data full s = (Inr JNull, s)"
proof -
  from assms(2) have "[0..<retries cl] = 0 # [1..<retries cl]"
    by (simp add: upt_conv_Cons)
  with get_token_unconfigured [OF assms(1)] show ?thesis
    by (simp add: request_def)
qed

lemma standard_operations_offline:
  assumes "\<not> configured cfg" and "0 < retries cl"
  shows "get_customers cl cfg n s = (Inr (JArr []), emit (LogError CustomersFailed) s)"
    and "get_customer cl cfg cid s = (Inr JNull, s)"
    and "get_customer_by_id cl cfg cid s = (Inr JNull, s)"
    and "get_items cl cfg n s = (Inr (JArr []), s)"
    and "get_item_by_number cl cfg item_no s = (Inr JNull, s)"
    and "get_orders cl cfg n s = (Inr (JArr []), s)"
    and "get_sales_orders cl cfg fq n s = (Inr (JArr []), s)"
    and "create_customer cl cfg d s = (Inr JNull, s)"
    and "get_currency_exchange_rates cl cfg cc n s = (Inr (JArr []), s)"
  using request_unconfigured [OF assms]
  by (simp_all add: get_customers_def get_customer_def get_customer_by_id_def get_items_def
        get_item_by_number_def get_orders_def get_sales_orders_def create_customer_def
        get_currency_exchange_rates_def bind_def lift_def value_or_empty_def first_value_def
        Let_def)

lemma custom_operations_offline:
  assumes "\<not> configured cfg" and "0 < retries cl" and "eb_base_url (url_builder cl) = Some b"
  shows "get_deliveries cl cfg filters n s = (Inr (JArr []), s)"
    and "get_delivery cl cfg delivery_id s = (Inr JNull, s)"
    and "update_delivery_status cl cfg delivery_id st notes s = (Inr JNull, s)"
    and "get_delivery_routes cl cfg d1 d2 driver s = (Inr (JArr []), s)"
    and "optimize_route cl cfg route s = (Inr JNull, s)"
    and "get_inventory_status cl cfg w s = (Inr (JArr []), s)"
  using request_unconfigured [OF assms(1,2)] assms(3)
  by (simp_all add: get_deliveries_def get_delivery_def update_delivery_status_def
        get_delivery_routes_def optimize_route_def get_inventory_status_def delivery_url_def
        build_custom_url_def bind_def lift_def value_or_empty_def first_value_def Let_def)

lemma delivery_url_eq:
  "eb_base_url (url_builder cl) = Some b \<Longrightarrow>
   delivery_url cl endpoint =
     Inr (split_first ''/api/v2.0'' b @ ''/api/techSphereDynamics/delivery/v1.0/companies(''
            @ py_str (eb_company_id (url_builder cl)) @ '')/'' @ endpoint)"
  by (simp add: delivery_url_def build_custom_url_def Let_def)

section \<open>Endpoint builder\<close>

text \<open>
  C6. \<^verbatim>\<open>build_custom_url\<close> cuts the base URL at the first occurrence of
  \<^verbatim>\<open>/api/v2.0\<close>: when the base is \<open>p\<close>, then the segment, then \<open>q\<close>, and the segment
  does not start anywhere inside \<open>p\<close>, a company-scoped call returns
  \<open>p/api/{publisher}/{app_group}/{version}/companies({company_id})/{endpoint}\<close>.
  The witness is the example of the specification: base
  \<^verbatim>\<open>https://x/v2.0/T/prod/api/v2.0\<close>, company \<^verbatim>\<open>C\<close>, (acme, g, v1, things).
\<close>

theorem build_custom_url_company_scoped:
  assumes "eb_base_url b = Some (p @ ''/api/v2.0'' @ q)"
    and "\<forall>i<length p. take (length ''/api/v2.0'') (drop i (p @ ''/api/v2.0'' @ q)) \<noteq> ''/api/v2.0''"
  shows "build_custom_url b publisher app_group version endpoint True =
           Inr (p @ ''/api/'' @ publisher @ ''/'' @ app_group @ ''/'' @ version
                  @ ''/companies('' @ py_str (eb_company_id b) @ '')/'' @ endpoint)"
proof -
  have "split_first ''/api/v2.0'' (p @ ''/api/v2.0'' @ q) = p"
    using assms(2) by (rule split_first_at)
  with assms(1) show ?thesis
    by (simp add: build_custom_url_def Let_def)
qed

theorem build_custom_url_company_scoped_witness:
  "eb_base_url \<lparr>eb_base_url = Some ''https://x/v2.0/T/prod/api/v2.0'', eb_company_id = Some ''C''\<rparr>
     = Some (''https://x/v2.0/T/prod'' @ ''/api/v2.0'' @ [])
   \<and> build_custom_url
        \<lparr>eb_base_url = Some ''https://x/v2.0/T/prod/api/v2.0'', eb_company_id = Some ''C''\<rparr>
        ''acme'' ''g'' ''v1'' ''things'' True
      = Inr ''https://x/v2.0/T/prod/api/acme/g/v1/companies(C)/things''"
proof -
  let ?b = "\<lparr>eb_base_url = Some ''https://x/v2.0/T/prod/api/v2.0'', eb_company_id = Some ''C''\<rparr>"
  have base: "eb_base_url ?b = Some (''https://x/v2.0/T/prod'' @ ''/api/v2.0'' @ [])"
    by simp
  have first: "\<forall>i<length ''https://x/v2.0/T/prod''.
         take (length ''/api/v2.0'') (drop i (''https://x/v2.0/T/prod'' @ ''/api/v2.0'' @ []))
           \<noteq> ''/api/v2.0''"
    by (simp add: All_less_Suc numeral_eq_Suc del: upt_Suc)
  from build_custom_url_company_scoped [OF base first, of "''acme''" "''g''" "''v1''" "''things''"]
  have "build_custom_url ?b ''acme'' ''g'' ''v1'' ''things'' True
          = Inr ''https://x/v2.0/T/prod/api/acme/g/v1/companies(C)/things''"
    by simp
  with base show ?thesis by blast
qed

section \<open>Token manager\<close>

text \<open>
  C5. \<^verbatim>\<open>_valid\<close> holds iff a token is stored and the clock is strictly before the
  stored expiry. When the token endpoint answers 200 with an \<^verbatim>\<open>access_token\<close> and
  \<^verbatim>\<open>expires_in\<close> \<open>n\<close> (3600 when the field is missing; \<open>n\<close> in the range of
  \<^verbatim>\<open>timedelta\<close> and \<^verbatim>\<open>datetime\<close>), \<^verbatim>\<open>_fetch\<close> returns the token, stores it, and
  sets the expiry to the time of acquisition plus \<open>n\<close> seconds. So the credential is valid
  at time \<open>t\<close> iff \<open>t\<close> is before that; with \<open>n = 3600\<close> and acquisition at \<open>T\<close> it is
  valid at \<open>T + 3599\<close> and not at \<open>T + 3601\<close>.
\<close>

theorem credential_validity:
  assumes "token_net s = (d, Responds r) # rest"
    and "status_code r = 200" and "resp_json r = Some (JObj j)"
    and "map_of j ''access_token'' = Some tok"
    and "map_of j ''expires_in'' = Some (JNum n) \<or> (map_of j ''expires_in'' = None \<and> n = 3600)"
    and "\<bar>n div 86400\<bar> \<le> 999999999" and "0 \<le> now s + int d + n"
    and "now s + int d + n \<le> datetime_max"
  shows "(valid s' \<longleftrightarrow> tm_token s' \<noteq> JNull \<and> (\<exists>e. tm_expires s' = Some e \<and> now s' < e))
     \<and> fst (fetch cfg s) = Inr tok
     \<and> tm_token (snd (fetch cfg s)) = tok
     \<and> now (snd (fetch cfg s)) = now s + int d
     \<and> tm_expires (snd (fetch cfg s)) = Some (now (snd (fetch cfg s)) + n)
     \<and> (valid ((snd (fetch cfg s))\<lparr>now := t\<rparr>) \<longleftrightarrow> tok \<noteq> JNull \<and> t < now (snd (fetch cfg s)) + n)
     \<and> (tok \<noteq> JNull \<and> n = 3600 \<longrightarrow>
          valid ((snd (fetch cfg s))\<lparr>now := now (snd (fetch cfg s)) + 3599\<rparr>)
          \<and> \<not> valid ((snd (fetch cfg s))\<lparr>now := now (snd (fetch cfg s)) + 3601\<rparr>))"
proof -
  have iff: "valid s' \<longleftrightarrow> tm_token s' \<noteq> JNull \<and> (\<exists>e. tm_expires s' = Some e \<and> now s' < e)"
    by (auto simp: valid_def split: option.splits)
  let ?v = "case map_of j ''expires_in'' of None \<Rightarrow> JNum 3600 | Some v \<Rightarrow> v"
  from assms(5) have v: "?v = JNum n" by auto
  have ex: "expiry_after (now s + int d) (JNum n) = Inr (now s + int d + n)"
    using assms(6,7,8) by (simp add: expiry_after_def)
  have f: "fetch cfg s =
      (Inr tok, (emit (TokenPost \<lparr>tq_url = py_str (authority (azure_ad cfg)) @ ''/oauth2/v2.0/token'',
                        tq_client_id = client_id (azure_ad cfg),
                        tq_client_secret = client_secret (azure_ad cfg),
                        tq_scope = scope\<rparr> (Some r)) (s\<lparr>now := now s + int d, token_net := rest\<rparr>))
                 \<lparr>tm_token := tok, tm_expires := Some (now s + int d + n)\<rparr>)"
    using assms(1-4) v ex by (simp add: fetch_def token_post_def Let_def)
  show ?thesis
    unfolding f using iff by (auto simp: valid_def)
qed

theorem credential_validity_witness:
  "token_net (fresh [(1, Responds token_200)] []) = (1, Responds token_200) # []
   \<and> fst (fetch demo_cfg (fresh [(1, Responds token_200)] [])) = Inr (JStr ''tok2'')
   \<and> now (snd (fetch demo_cfg (fresh [(1, Responds token_200)] []))) = 1001
   \<and> tm_expires (snd (fetch demo_cfg (fresh [(1, Responds token_200)] []))) = Some (1001 + 3600)
   \<and> valid ((snd (fetch demo_cfg (fresh [(1, Responds token_200)] [])))\<lparr>now := 1001 + 3599\<rparr>)
   \<and> \<not> valid ((snd (fetch demo_cfg (fresh [(1, Responds token_200)] [])))\<lparr>now := 1001 + 3601\<rparr>)"
proof -
  let ?start = "fresh [(1, Responds token_200)] []"
  let ?j = "[(''access_token'', JStr ''tok2''), (''expires_in'', JNum 3600)]"
  have net: "token_net ?start = (1, Responds token_200) # []" by (simp add: fresh_def)
  have st: "status_code token_200 = 200" by (simp add: token_200_def)
  have js: "resp_json token_200 = Some (JObj ?j)" by (simp add: token_200_def)
  have at: "map_of ?j ''access_token'' = Some (JStr ''tok2'')" by simp
  have ei: "map_of ?j ''expires_in'' = Some (JNum 3600) \<or> (map_of ?j ''expires_in'' = None \<and> (3600::int) = 3600)"
    by simp
  have b1: "\<bar>(3600::int) div 86400\<bar> \<le> 999999999" by simp
  have b2: "0 \<le> now ?start + int 1 + 3600" by (simp add: fresh_def)
  have b3: "now ?start + int 1 + 3600 \<le> datetime_max" by (simp add: fresh_def datetime_max_def)
  from credential_validity [OF net st js at ei b1 b2 b3, of _ demo_cfg]
  show ?thesis using net by (simp add: fresh_def)
qed

section \<open>Request executor\<close>





text \<open>
  C2, as the code has it. \<^verbatim>\<open>_request\<close> returns a dictionary or \<^verbatim>\<open>None\<close>; it has no
  outcome that carries a status. After three 500 responses it returns \<^verbatim>\<open>None\<close>, the
  value it also returns after three 503 responses with another body and when no
  credential is configured. The status and the excerpt of the body are in the error
  record that is logged, not in the value returned.
\<close>

theorem budget_exhausted_counterexample:
  "fst (request demo_client demo_cfg ''GET'' ''customers'' None None False
          (cached [] [(0, Responds r500), (0, Responds r500), (0, Responds r500)])) = Inr JNull
   \<and> fst (request demo_client demo_cfg ''GET'' ''customers'' None None False
          (cached [] [(0, Responds r503), (0, Responds r503), (0, Responds r503)])) = Inr JNull
   \<and> fst (request (BusinessCentralClient (AppConfig no_tenant_env)) (AppConfig no_tenant_env)
          ''GET'' ''customers'' None None False
          (cached [] [(0, Responds r500), (0, Responds r500), (0, Responds r500)])) = Inr JNull
   \<and> status_code r500 \<noteq> status_code r503
   \<and> take 200 (resp_text r500) \<noteq> take 200 (resp_text r503)
   \<and> last (trace (snd (request demo_client demo_cfg ''GET'' ''customers'' None None False
          (cached [] [(0, Responds r500), (0, Responds r500), (0, Responds r500)])))) =
       LogError (RequestFailed ''GET'' ''customers'' (Some (500, ''Internal Server Error'')))"
  by (simp add: model_defs scenario_defs)

text \<open>
  C2, amended. With the budget of three attempts and a credential available at each of
  them (from the cache or fetched, \<open>t1\<close>, \<open>t2\<close>, \<open>t3\<close>), three responses with status 500
  or above make \<^verbatim>\<open>_request\<close> return \<^verbatim>\<open>None\<close> after exactly three calls to Business
  Central, with sleeps of 1, 2 and 4 seconds. The last event of the run is the error
  record, which carries the status of the last response and the first 200 characters of
  its body.
\<close>

theorem budget_exhausted:
  assumes "retries cl = 3"
    and "api_net s = (d1, Responds r1) # (d2, Responds r2) # (d3, Responds r3) # rest"
    and "500 \<le> status_code r1" and "500 \<le> status_code r2" and "500 \<le> status_code r3"
    and "q = (\<lambda>token. \<lparr>rq_method = m,
               rq_url = (if full then p else build_standard_url (url_builder cl) p),
               rq_bearer = token, rq_params = params, rq_json = data\<rparr>)"
    and "get_token cfg s = (Inr t1, a1)" and "truthy t1"
    and "get_token cfg (sleep 1 (snd (api_request (q t1) a1))) = (Inr t2, a2)" and "truthy t2"
    and "get_token cfg (sleep 2 (snd (api_request (q t2) a2))) = (Inr t3, a3)" and "truthy t3"
  shows "fst (request cl cfg m p params data full s) = Inr JNull
     \<and> api_calls (trace (snd (request cl cfg m p params data full s))) =
         api_calls (trace s) @ [(q t1, Some r1), (q t2, Some r2), (q t3, Some r3)]
     \<and> sleeps (trace (snd (request cl cfg m p params data full s))) = sleeps (trace s) @ [1, 2, 4]
     \<and> trace (snd (request cl cfg m p params data full s)) =
         trace a3 @ [ApiCall (q t3) (Some r3), Sleep 4,
                     LogError (RequestFailed m p (Some (status_code r3, take 200 (resp_text r3))))]
     \<and> api_net (snd (request cl cfg m p params data full s)) = rest"
proof -
  let ?b1 = "sleep 1 (snd (api_request (q t1) a1))"
  let ?b2 = "sleep 2 (snd (api_request (q t2) a2))"
  note g1 = get_token_trace [OF assms(7)]
  note g2 = get_token_trace [OF assms(9)]
  note g3 = get_token_trace [OF assms(11)]
  have n1: "api_net a1 = (d1, Responds r1) # (d2, Responds r2) # (d3, Responds r3) # rest"
    using g1 assms(2) by simp
  have c1: "api_request (q t1) a1 =
      (Some r1, emit (ApiCall (q t1) (Some r1))
                  (a1\<lparr>now := now a1 + int d1, api_net := (d2, Responds r2) # (d3, Responds r3) # rest\<rparr>))"
    using n1 by (simp add: api_request_def)
  have n2: "api_net a2 = (d2, Responds r2) # (d3, Responds r3) # rest"
    using g2 c1 by (simp add: sleep_def)
  have c2: "api_request (q t2) a2 =
      (Some r2, emit (ApiCall (q t2) (Some r2))
                  (a2\<lparr>now := now a2 + int d2, api_net := (d3, Responds r3) # rest\<rparr>))"
    using n2 by (simp add: api_request_def)
  have n3: "api_net a3 = (d3, Responds r3) # rest"
    using g3 c2 by (simp add: sleep_def)
  have c3: "api_request (q t3) a3 =
      (Some r3, emit (ApiCall (q t3) (Some r3)) (a3\<lparr>now := now a3 + int d3, api_net := rest\<rparr>))"
    using n3 by (simp add: api_request_def)
  have t1: "api_calls (trace ?b1) = api_calls (trace s) @ [(q t1, Some r1)]"
    "sleeps (trace ?b1) = sleeps (trace s) @ [1]"
    using g1 c1 by (simp_all add: sleep_def)
  have t2: "api_calls (trace ?b2) = api_calls (trace s) @ [(q t1, Some r1), (q t2, Some r2)]"
    "sleeps (trace ?b2) = sleeps (trace s) @ [1, 2]"
    using g2 c2 t1 by (simp_all add: sleep_def)
  have t3: "api_calls (trace a3) = api_calls (trace s) @ [(q t1, Some r1), (q t2, Some r2)]"
    "sleeps (trace a3) = sleeps (trace s) @ [1, 2]"
    using g3 t2 by simp_all
  define U where "U = (if full then p else build_standard_url (url_builder cl) p)"
  let ?c = "\<lparr>c_method = m, c_path_or_url = p, c_url = U, c_params = params, c_data = data\<rparr>"
  have qc: "\<lparr>rq_method = m, rq_url = U, rq_bearer = t, rq_params = params, rq_json = data\<rparr> = q t"
    for t by (simp add: assms(6) U_def)
  have l3: "request_loop cfg ?c [2] (Some r2) ?b2 =
      after_loop ?c (Some r3) (sleep (2 ^ 2) (snd (api_request (q t3) a3)))"
    using assms(5,11,12) c3 by (simp add: qc)
  have l2: "request_loop cfg ?c [1, 2] (Some r1) ?b1 = request_loop cfg ?c [2] (Some r2) ?b2"
    using assms(4,9,10) c2 by (simp add: qc)
  have l1: "request_loop cfg ?c [0, 1, 2] None s = request_loop cfg ?c [1, 2] (Some r1) ?b1"
    using assms(3,7,8) c1 by (simp add: qc)
  have "request cl cfg m p params data full s = request_loop cfg ?c [0, 1, 2] None s"
    using assms(1) by (simp add: request_def upt_3 U_def)
  with l1 l2 l3 have run: "request cl cfg m p params data full s =
      after_loop ?c (Some r3) (sleep 4 (snd (api_request (q t3) a3)))"
    by simp
  show ?thesis
    unfolding run using c3 t3 by (simp add: after_loop_def sleep_def)
qed


theorem budget_exhausted_witness:
  "retries demo_client = 3
   \<and> fst (request demo_client demo_cfg ''GET'' ''customers'' None None False
            ((cached [(1, Responds token_200)]
                [(2, Responds r500), (2, Responds r500), (2, Responds r500)])
               \<lparr>tm_expires := Some 1002\<rparr>)) = Inr JNull
   \<and> trace (snd (request demo_client demo_cfg ''GET'' ''customers'' None None False
            ((cached [(1, Responds token_200)]
                [(2, Responds r500), (2, Responds r500), (2, Responds r500)])
               \<lparr>tm_expires := Some 1002\<rparr>))) =
       [ApiCall (demo_request (JStr ''tok'')) (Some r500), Sleep 1,
        TokenPost demo_token_request (Some token_200),
        ApiCall (demo_request (JStr ''tok2'')) (Some r500), Sleep 2,
        ApiCall (demo_request (JStr ''tok2'')) (Some r500), Sleep 4,
        LogError (RequestFailed ''GET'' ''customers'' (Some (500, ''Internal Server Error'')))]"
proof -
  let ?start = "(cached [(1, Responds token_200)]
                [(2, Responds r500), (2, Responds r500), (2, Responds r500)])
               \<lparr>tm_expires := Some 1002\<rparr>"
  let ?b1 = "sleep 1 (snd (api_request (demo_request (JStr ''tok'')) ?start))"
  let ?a2 = "snd (get_token demo_cfg ?b1)"
  let ?b2 = "sleep 2 (snd (api_request (demo_request (JStr ''tok2'')) ?a2))"
  let ?a3 = "snd (get_token demo_cfg ?b2)"
  have budget: "retries demo_client = 3"
    by (simp add: scenario_defs BusinessCentralClient_def)
  have net: "api_net ?start = (2, Responds r500) # (2, Responds r500) # (2, Responds r500) # []"
    by (simp add: cached_def)
  have st: "500 \<le> status_code r500" by (simp add: r500_def)
  have q: "demo_request = (\<lambda>token. \<lparr>rq_method = ''GET'',
               rq_url = (if False then ''customers''
                         else build_standard_url (url_builder demo_client) ''customers''),
               rq_bearer = token, rq_params = None, rq_json = None\<rparr>)"
    by (simp add: demo_request_def demo_call_def fun_eq_iff)
  have g1: "get_token demo_cfg ?start = (Inr (JStr ''tok''), ?start)"
    by (simp add: model_defs scenario_defs)
  have "fst (get_token demo_cfg ?b1) = Inr (JStr ''tok2'')"
    by (simp add: model_defs scenario_defs)
  then have g2: "get_token demo_cfg ?b1 = (Inr (JStr ''tok2''), ?a2)"
    by (simp add: prod_eq_iff)
  have "fst (get_token demo_cfg ?b2) = Inr (JStr ''tok2'')"
    by (simp add: model_defs scenario_defs)
  then have g3: "get_token demo_cfg ?b2 = (Inr (JStr ''tok2''), ?a3)"
    by (simp add: prod_eq_iff)
  have tr: "truthy (JStr ''tok'')" "truthy (JStr ''tok2'')" by simp_all
  have a3: "trace ?a3 =
       [ApiCall (demo_request (JStr ''tok'')) (Some r500), Sleep 1,
        TokenPost demo_token_request (Some token_200),
        ApiCall (demo_request (JStr ''tok2'')) (Some r500), Sleep 2]"
    by (simp add: model_defs scenario_defs)
  from budget_exhausted [OF budget net st st st q g1 tr(1) g2 tr(2) g3 tr(2)]
  show ?thesis
    using budget a3 by (simp add: r500_def)
qed

text \<open>
  C9. In every run of \<^verbatim>\<open>_request\<close> started on an empty trace, the trace is in order:
  each 401 response is followed at once by the invalidation of the cached token, no
  invalidation happens anywhere else (so there are as many invalidations as 401
  responses), and after an invalidation the token endpoint is called before Business
  Central is called again. Business Central is called at most \<open>retries\<close> times, 401
  attempts included. In the loop, a 401 at index \<open>i\<close> continues with the remaining
  indices, one attempt used, in a state where \<open>get_token\<close> has to fetch.
\<close>

theorem unauthorized_invalidates_once:
  "(trace s = [] \<longrightarrow>
      in_order (trace (snd (request cl cfg m p params data full s)))
      \<and> invalidations (trace (snd (request cl cfg m p params data full s))) =
          unauthorized (trace (snd (request cl cfg m p params data full s)))
      \<and> length (api_calls (trace (snd (request cl cfg m p params data full s)))) \<le> retries cl)
   \<and> (get_token cfg s = (Inr tok, s1) \<and> truthy tok
       \<and> api_request \<lparr>rq_method = c_method c, rq_url = c_url c, rq_bearer = tok,
                       rq_params = c_params c, rq_json = c_data c\<rparr> s1 = (Some r, s2)
       \<and> status_code r = 401 \<longrightarrow>
      request_loop cfg c (i # rest) resp s =
        request_loop cfg c rest (Some r) (emit TokenCleared (s2\<lparr>tm_token := JNull\<rparr>))
      \<and> get_token cfg (emit TokenCleared (s2\<lparr>tm_token := JNull\<rparr>)) =
          fetch cfg (emit TokenCleared (s2\<lparr>tm_token := JNull\<rparr>)))"
proof (intro conjI impI)
  let ?t = "trace (snd (request cl cfg m p params data full s))"
  assume empty: "trace s = []"
  from request_in_order [OF empty] show ord: "in_order ?t" .
  then have "foldl step Idle ?t \<noteq> Bad" by (auto simp: in_order_def)
  from invalidations_balance [OF this] ord show "invalidations ?t = unauthorized ?t"
    by (auto simp: in_order_def)
  from request_sent [of cl cfg m p params data full s] empty
  obtain n where n: "n \<le> retries cl"
    and "sent ?t = replicate n
           (m, (if full then p else build_standard_url (url_builder cl) p), params, data)"
    by (auto simp: sent_def)
  then have "length (sent ?t) = n" by simp
  with n show "length (api_calls ?t) \<le> retries cl" by (simp add: sent_def)
next
  assume h: "get_token cfg s = (Inr tok, s1) \<and> truthy tok
       \<and> api_request \<lparr>rq_method = c_method c, rq_url = c_url c, rq_bearer = tok,
                       rq_params = c_params c, rq_json = c_data c\<rparr> s1 = (Some r, s2)
       \<and> status_code r = 401"
  then show "request_loop cfg c (i # rest) resp s =
        request_loop cfg c rest (Some r) (emit TokenCleared (s2\<lparr>tm_token := JNull\<rparr>))"
    by simp
  from h get_token_result [of cfg s tok s1] have "configured cfg" by blast
  then show "get_token cfg (emit TokenCleared (s2\<lparr>tm_token := JNull\<rparr>)) =
          fetch cfg (emit TokenCleared (s2\<lparr>tm_token := JNull\<rparr>))"
    by (simp add: get_token_def configured_def valid_def)
qed


theorem unauthorized_invalidates_once_witness:
  "trace (cached [(1, Responds token_200)] [(2, Responds r401), (2, Responds r200)]) = []
   \<and> trace (snd (request demo_client demo_cfg ''GET'' ''customers'' None None False
        (cached [(1, Responds token_200)] [(2, Responds r401), (2, Responds r200)]))) =
       [ApiCall (demo_request (JStr ''tok'')) (Some r401), TokenCleared,
        TokenPost demo_token_request (Some token_200),
        ApiCall (demo_request (JStr ''tok2'')) (Some r200)]
   \<and> in_order (trace (snd (request demo_client demo_cfg ''GET'' ''customers'' None None False
        (cached [(1, Responds token_200)] [(2, Responds r401), (2, Responds r200)]))))
   \<and> invalidations (trace (snd (request demo_client demo_cfg ''GET'' ''customers'' None None False
        (cached [(1, Responds token_200)] [(2, Responds r401), (2, Responds r200)])))) = 1
   \<and> unauthorized (trace (snd (request demo_client demo_cfg ''GET'' ''customers'' None None False
        (cached [(1, Responds token_200)] [(2, Responds r401), (2, Responds r200)])))) = 1
   \<and> get_token demo_cfg (cached [(1, Responds token_200)] [(2, Responds r401), (2, Responds r200)])
       = (Inr (JStr ''tok''),
          cached [(1, Responds token_200)] [(2, Responds r401), (2, Responds r200)])
   \<and> api_request (demo_request (JStr ''tok''))
         (cached [(1, Responds token_200)] [(2, Responds r401), (2, Responds r200)])
       = (Some r401,
          (cached [(1, Responds token_200)] [(2, Responds r200)])
            \<lparr>now := 1002, trace := [ApiCall (demo_request (JStr ''tok'')) (Some r401)]\<rparr>)
   \<and> request_loop demo_cfg demo_call [0, 1, 2] None
         (cached [(1, Responds token_200)] [(2, Responds r401), (2, Responds r200)])
       = request_loop demo_cfg demo_call [1, 2] (Some r401)
           ((cached [(1, Responds token_200)] [(2, Responds r200)])
              \<lparr>tm_token := JNull, now := 1002,
                trace := [ApiCall (demo_request (JStr ''tok'')) (Some r401), TokenCleared]\<rparr>)
   \<and> fst (get_token demo_cfg
         ((cached [(1, Responds token_200)] [(2, Responds r200)])
              \<lparr>tm_token := JNull, now := 1002,
                trace := [ApiCall (demo_request (JStr ''tok'')) (Some r401), TokenCleared]\<rparr>))
       = Inr (JStr ''tok2'')"
proof -
  let ?start = "cached [(1, Responds token_200)] [(2, Responds r401), (2, Responds r200)]"
  let ?mid = "(cached [(1, Responds token_200)] [(2, Responds r200)])
            \<lparr>now := 1002, trace := [ApiCall (demo_request (JStr ''tok'')) (Some r401)]\<rparr>"
  have empty: "trace ?start = []" by (simp add: cached_def)
  have gt: "get_token demo_cfg ?start = (Inr (JStr ''tok''), ?start)"
    by (simp add: model_defs scenario_defs)
  have ar: "api_request \<lparr>rq_method = c_method demo_call, rq_url = c_url demo_call,
                rq_bearer = JStr ''tok'', rq_params = c_params demo_call,
                rq_json = c_data demo_call\<rparr> ?start = (Some r401, ?mid)"
    by (simp add: model_defs scenario_defs)
  have st: "status_code r401 = 401" by (simp add: r401_def)
  note inst = unauthorized_invalidates_once
    [where s = ?start and cl = demo_client and cfg = demo_cfg and m = "''GET''"
       and p = "''customers''" and params = None and data = None and full = False
       and tok = "JStr ''tok''" and ?s1.0 = ?start and c = demo_call and r = r401
       and ?s2.0 = ?mid and i = 0 and rest = "[1, 2]" and resp = None]
  from inst empty have run: "in_order (trace (snd (request demo_client demo_cfg ''GET'' ''customers''
        None None False ?start)))" by blast
  from inst gt ar st have loop: "request_loop demo_cfg demo_call [0, 1, 2] None ?start =
        request_loop demo_cfg demo_call [1, 2] (Some r401) (emit TokenCleared (?mid\<lparr>tm_token := JNull\<rparr>))"
    by simp
  have tr: "trace (snd (request demo_client demo_cfg ''GET'' ''customers'' None None False ?start)) =
       [ApiCall (demo_request (JStr ''tok'')) (Some r401), TokenCleared,
        TokenPost demo_token_request (Some token_200),
        ApiCall (demo_request (JStr ''tok2'')) (Some r200)]"
    by (simp add: model_defs scenario_defs)
  have cnt: "invalidations [ApiCall (demo_request (JStr ''tok'')) (Some r401), TokenCleared,
        TokenPost demo_token_request (Some token_200),
        ApiCall (demo_request (JStr ''tok2'')) (Some r200)] = 1"
    "unauthorized [ApiCall (demo_request (JStr ''tok'')) (Some r401), TokenCleared,
        TokenPost demo_token_request (Some token_200),
        ApiCall (demo_request (JStr ''tok2'')) (Some r200)] = 1"
    by (simp_all add: r401_def r200_def)
  have nxt: "fst (get_token demo_cfg
         ((cached [(1, Responds token_200)] [(2, Responds r200)])
              \<lparr>tm_token := JNull, now := 1002,
                trace := [ApiCall (demo_request (JStr ''tok'')) (Some r401), TokenCleared]\<rparr>))
       = Inr (JStr ''tok2'')"
    by (simp add: model_defs scenario_defs)
  have mid: "emit TokenCleared (?mid\<lparr>tm_token := JNull\<rparr>) =
      (cached [(1, Responds token_200)] [(2, Responds r200)])
              \<lparr>tm_token := JNull, now := 1002,
                trace := [ApiCall (demo_request (JStr ''tok'')) (Some r401), TokenCleared]\<rparr>"
    by (simp add: emit_def cached_def)
  have ar': "api_request (demo_request (JStr ''tok'')) ?start = (Some r401, ?mid)"
    using ar by (simp add: demo_request_def)
  from empty tr run cnt gt ar' loop nxt mid show ?thesis
    by (simp only:)
qed

text \<open>
  C3, where the code differs. Neither \<^verbatim>\<open>_fetch\<close> nor \<^verbatim>\<open>_request\<close> has an
  exception handler around its HTTP call. With a complete identity and an empty cache, a
  token endpoint that times out makes \<open>get_token\<close> raise, and \<^verbatim>\<open>_request\<close> with it;
  with a cached token, a call to Business Central that times out makes \<^verbatim>\<open>_request\<close>
  raise. (The sibling \<^verbatim>\<open>_acquire_new_token\<close> catches every exception and returns
  \<^verbatim>\<open>None\<close>.)
\<close>

theorem network_exception_propagates:
  "fst (get_token demo_cfg (fresh [(30, Raises)] [])) = Inl NetworkError
   \<and> fst (request demo_client demo_cfg ''GET'' ''customers'' None None False
            (fresh [(30, Raises)] [])) = Inl NetworkError
   \<and> fst (request demo_client demo_cfg ''GET'' ''customers'' None None False
            (cached [] [(30, Raises)])) = Inl NetworkError"
  by (simp add: model_defs scenario_defs)

theorem network_exception_propagates_witness:
  "fst (get_token demo_cfg (fresh [(30, Raises)] [])) \<noteq> Inr JNull
   \<and> (\<exists>e. fst (request demo_client demo_cfg ''GET'' ''customers'' None None False
                 (cached [] [(30, Raises)])) = Inl e)"
  using network_exception_propagates by simp

section \<open>Domain operations\<close>

text \<open>
  C4, where the code differs. Without \<^verbatim>\<open>AZURE_TENANT_ID\<close> the configuration has no
  base URL, and every operation of the delivery API raises AttributeError in
  \<^verbatim>\<open>build_custom_url\<close> (\<^verbatim>\<open>None.split\<close>) instead of returning an empty list or
  \<^verbatim>\<open>None\<close>. The other parts of the claim hold: see \<open>get_token_unconfigured\<close>,
  \<open>request_unconfigured\<close>, \<open>standard_operations_offline\<close> and
  \<open>custom_operations_offline\<close>.
\<close>

theorem custom_operations_raise_without_tenant:
  "base_url (bc (AppConfig no_tenant_env)) = None
   \<and> get_deliveries (BusinessCentralClient (AppConfig no_tenant_env)) (AppConfig no_tenant_env)
        None 20 (fresh [] []) = (Inl AttributeError, fresh [] [])
   \<and> get_delivery (BusinessCentralClient (AppConfig no_tenant_env)) (AppConfig no_tenant_env)
        ''DEL-001'' (fresh [] []) = (Inl AttributeError, fresh [] [])
   \<and> update_delivery_status (BusinessCentralClient (AppConfig no_tenant_env))
        (AppConfig no_tenant_env) ''DEL-001'' ''Delivered'' [] (fresh [] [])
        = (Inl AttributeError, fresh [] [])
   \<and> get_delivery_routes (BusinessCentralClient (AppConfig no_tenant_env))
        (AppConfig no_tenant_env) ''2024-01-01'' ''2024-01-31'' None (fresh [] [])
        = (Inl AttributeError, fresh [] [])
   \<and> optimize_route (BusinessCentralClient (AppConfig no_tenant_env)) (AppConfig no_tenant_env)
        [] (fresh [] []) = (Inl AttributeError, fresh [] [])
   \<and> get_inventory_status (BusinessCentralClient (AppConfig no_tenant_env))
        (AppConfig no_tenant_env) None (fresh [] []) = (Inl AttributeError, fresh [] [])"
  by (simp add: get_deliveries_def get_delivery_def update_delivery_status_def
        get_delivery_routes_def optimize_route_def get_inventory_status_def
        model_defs scenario_defs)

text \<open>
  C7. On a client with a base URL, \<^verbatim>\<open>get_delivery\<close> is one call of \<^verbatim>\<open>_request\<close>.
  For an identifier longer than 20 characters that contains a hyphen it is a GET of
  \<open>.../deliveries({id})\<close>, the key unquoted, with no query parameters, and its result
  is returned as it is. For every other identifier it is a GET of \<open>.../deliveries\<close> with
  \<^verbatim>\<open>$filter\<close> \<open>no eq '{id}'\<close> (the identifier between two single quotes, written
  \<open>CHR 0x27\<close> below) and \<^verbatim>\<open>$top\<close> 1, and the result goes through
  \<open>first_value\<close>: \<^verbatim>\<open>None\<close> for \<^verbatim>\<open>None\<close> and for a dictionary without
  \<^verbatim>\<open>value\<close>, else the first element of the \<^verbatim>\<open>value\<close> array, \<^verbatim>\<open>None\<close> when the
  array is empty. Every HTTP call made carries that method, URL and parameters.
\<close>

theorem get_delivery_branches:
  assumes "eb_base_url (url_builder cl) = Some b"
  shows "(let U = split_first ''/api/v2.0'' b @ ''/api/techSphereDynamics/delivery/v1.0/companies(''
                    @ py_str (eb_company_id (url_builder cl)) @ '')/'';
              P = [(''$filter'', JStr (''no eq '' @ [CHR 0x27] @ delivery_id @ [CHR 0x27])), (''$top'', JNum 1)]
          in if 20 < length delivery_id \<and> CHR ''-'' \<in> set delivery_id
             then get_delivery cl cfg delivery_id s =
                    request cl cfg ''GET'' (U @ ''deliveries('' @ delivery_id @ '')'') None None True s
                \<and> (\<exists>n\<le>retries cl. sent (trace (snd (get_delivery cl cfg delivery_id s))) =
                      sent (trace s) @
                      replicate n (''GET'', U @ ''deliveries('' @ delivery_id @ '')'', None, None))
             else get_delivery cl cfg delivery_id s =
                    bind (request cl cfg ''GET'' (U @ ''deliveries'') (Some P) None True)
                      (\<lambda>response. lift (first_value response)) s
                \<and> (\<exists>n\<le>retries cl. sent (trace (snd (get_delivery cl cfg delivery_id s))) =
                      sent (trace s) @ replicate n (''GET'', U @ ''deliveries'', Some P, None)))
     \<and> first_value JNull = Inr JNull
     \<and> (map_of v ''value'' = None \<longrightarrow> first_value (JObj v) = Inr JNull)
     \<and> (map_of v ''value'' = Some (JArr xs) \<longrightarrow>
          first_value (JObj v) = Inr (case xs of [] \<Rightarrow> JNull | x # _ \<Rightarrow> x))"
proof -
  let ?U = "split_first ''/api/v2.0'' b @ ''/api/techSphereDynamics/delivery/v1.0/companies(''
                    @ py_str (eb_company_id (url_builder cl)) @ '')/''"
  let ?P = "[(''$filter'', JStr (''no eq '' @ [CHR 0x27] @ delivery_id @ [CHR 0x27])), (''$top'', JNum 1)]"
  note u = delivery_url_eq [OF assms]
  have direct: "get_delivery cl cfg delivery_id s =
        request cl cfg ''GET'' (?U @ ''deliveries('' @ delivery_id @ '')'') None None True s
      \<and> (\<exists>n\<le>retries cl. sent (trace (snd (get_delivery cl cfg delivery_id s))) =
            sent (trace s) @
            replicate n (''GET'', ?U @ ''deliveries('' @ delivery_id @ '')'', None, None))"
    if "20 < length delivery_id \<and> CHR ''-'' \<in> set delivery_id"
  proof -
    have eq: "get_delivery cl cfg delivery_id s =
        request cl cfg ''GET'' (?U @ ''deliveries('' @ delivery_id @ '')'') None None True s"
      using that u by (simp add: get_delivery_def bind_def lift_def)
    with request_sent [of cl cfg "''GET''" "?U @ ''deliveries('' @ delivery_id @ '')''" None None True s]
    show ?thesis by simp
  qed
  have filtered: "get_delivery cl cfg delivery_id s =
        bind (request cl cfg ''GET'' (?U @ ''deliveries'') (Some ?P) None True)
          (\<lambda>response. lift (first_value response)) s
      \<and> (\<exists>n\<le>retries cl. sent (trace (snd (get_delivery cl cfg delivery_id s))) =
            sent (trace s) @ replicate n (''GET'', ?U @ ''deliveries'', Some ?P, None))"
    if "\<not> (20 < length delivery_id \<and> CHR ''-'' \<in> set delivery_id)"
  proof -
    have "get_delivery cl cfg delivery_id s =
        bind (lift (delivery_url cl ''deliveries''))
          (\<lambda>url. bind (request cl cfg ''GET'' url (Some ?P) None True)
                    (\<lambda>response. lift (first_value response))) s"
      by (simp only: get_delivery_def that if_False quoted_def append_Cons append_Nil)
    then have eq: "get_delivery cl cfg delivery_id s =
        bind (request cl cfg ''GET'' (?U @ ''deliveries'') (Some ?P) None True)
          (\<lambda>response. lift (first_value response)) s"
      using u by (simp add: bind_def lift_def)
    have "sent (trace (snd (get_delivery cl cfg delivery_id s))) =
        sent (trace (snd (request cl cfg ''GET'' (?U @ ''deliveries'') (Some ?P) None True s)))"
      unfolding eq by (simp add: bind_def lift_def split: prod.splits sum.splits)
    with request_sent [of cl cfg "''GET''" "?U @ ''deliveries''" "Some ?P" None True s] eq
    show ?thesis by simp
  qed
  have fv: "first_value JNull = Inr JNull"
    "map_of v ''value'' = None \<longrightarrow> first_value (JObj v) = Inr JNull"
    "map_of v ''value'' = Some (JArr xs) \<longrightarrow>
          first_value (JObj v) = Inr (case xs of [] \<Rightarrow> JNull | x # _ \<Rightarrow> x)"
    by (auto simp: first_value_def py_in_value_def py_item_value_def py_item_0_def
             split: list.splits)
  from direct filtered fv show ?thesis
    by (simp only: Let_def split: if_splits) blast
qed

theorem get_delivery_branches_witness:
  "eb_base_url (url_builder demo_client) =
     Some ''https://api.businesscentral.dynamics.com/v2.0/T/prod/api/v2.0''
   \<and> sent (trace (snd (get_delivery demo_client demo_cfg ''3fa85f64-5717-4562-b3fc-2c963f66afa6''
                          (cached [] [(0, Responds r200)])))) =
       [(''GET'',
         ''https://api.businesscentral.dynamics.com/v2.0/T/prod/api/techSphereDynamics/delivery/v1.0/companies(C)/deliveries(3fa85f64-5717-4562-b3fc-2c963f66afa6)'',
         None, None)]
   \<and> sent (trace (snd (get_delivery demo_client demo_cfg ''DEL-001''
                          (cached [] [(0, Responds r200)])))) =
       [(''GET'',
         ''https://api.businesscentral.dynamics.com/v2.0/T/prod/api/techSphereDynamics/delivery/v1.0/companies(C)/deliveries'',
         Some [(''$filter'', JStr (''no eq 'DEL-001'' @ [CHR 0x27])), (''$top'', JNum 1)], None)]
   \<and> fst (get_delivery demo_client demo_cfg ''DEL-001'' (cached [] [(0, Responds r200)])) =
       Inr (JObj [(''no'', JStr ''DEL-001'')])"
proof -
  have b: "eb_base_url (url_builder demo_client) =
     Some ''https://api.businesscentral.dynamics.com/v2.0/T/prod/api/v2.0''"
    by (simp add: model_defs scenario_defs)
  have c: "eb_company_id (url_builder demo_client) = Some ''C''"
    by (simp add: model_defs scenario_defs)
  from get_delivery_branches [OF b, where delivery_id = "''3fa85f64-5717-4562-b3fc-2c963f66afa6''"
      and cfg = demo_cfg and s = "cached [] [(0, Responds r200)]"]
  have guid: "get_delivery demo_client demo_cfg ''3fa85f64-5717-4562-b3fc-2c963f66afa6''
                (cached [] [(0, Responds r200)]) =
      request demo_client demo_cfg ''GET''
        ''https://api.businesscentral.dynamics.com/v2.0/T/prod/api/techSphereDynamics/delivery/v1.0/companies(C)/deliveries(3fa85f64-5717-4562-b3fc-2c963f66afa6)''
        None None True (cached [] [(0, Responds r200)])"
    by (simp add: c Let_def)
  from get_delivery_branches [OF b, where delivery_id = "''DEL-001''"
      and cfg = demo_cfg and s = "cached [] [(0, Responds r200)]"]
  have no: "get_delivery demo_client demo_cfg ''DEL-001'' (cached [] [(0, Responds r200)]) =
      bind (request demo_client demo_cfg ''GET''
              ''https://api.businesscentral.dynamics.com/v2.0/T/prod/api/techSphereDynamics/delivery/v1.0/companies(C)/deliveries''
              (Some [(''$filter'', JStr (''no eq 'DEL-001'' @ [CHR 0x27])), (''$top'', JNum 1)])
              None True)
        (\<lambda>response. lift (first_value response)) (cached [] [(0, Responds r200)])"
    by (simp add: c Let_def)
  show ?thesis
    unfolding guid no
    by (simp add: b sent_def first_value_def py_in_value_def py_item_value_def py_item_0_def
          model_defs scenario_defs)
qed

text \<open>
  C8, as the code has it. For the filters \<^verbatim>\<open>{status: "Delivered", date_from:
  "2024-01-01"}\<close> the date clause is put between parentheses when it is joined to the
  status clause: the \<^verbatim>\<open>$filter\<close> sent is
  \<^verbatim>\<open>status eq 'Delivered' and (deliveryDate ge 2024-01-01)\<close>, not the string of the
  claim.
\<close>

theorem get_deliveries_filter_counterexample:
  "map_of (deliveries_params (Some [(''status'', ''Delivered''), (''date_from'', ''2024-01-01'')]) 20)
      ''$filter'' = Some (JStr ''status eq 'Delivered' and (deliveryDate ge 2024-01-01)'')
   \<and> map_of (deliveries_params (Some [(''status'', ''Delivered''), (''date_from'', ''2024-01-01'')]) 20)
      ''$filter'' \<noteq> Some (JStr ''status eq 'Delivered' and deliveryDate ge 2024-01-01'')
   \<and> map (\<lambda>(m, u, p, j). p)
        (sent (trace (snd (get_deliveries demo_client demo_cfg
           (Some [(''status'', ''Delivered''), (''date_from'', ''2024-01-01'')]) 20
           (cached [] [(0, Responds r200)])))))
      = [Some [(''$top'', JNum 20),
               (''$filter'', JStr ''status eq 'Delivered' and (deliveryDate ge 2024-01-01)'')]]"
  by (simp add: deliveries_params_def with_customer_def with_status_def with_dates_def
        get_truthy_def get_filter_def quoted_def get_deliveries_def value_or_empty_def
        py_get_value_def sent_def model_defs scenario_defs)

text \<open>
  C8, amended. For filters with a status \<open>st\<close> and a start date \<open>d\<close> and neither
  customer nor end date, \<^verbatim>\<open>get_deliveries\<close> builds the parameters \<^verbatim>\<open>$top\<close> and
  \<^verbatim>\<open>$filter\<close> = \<open>status eq '{st}' and (deliveryDate ge {d})\<close>, and every HTTP call it
  makes carries exactly these parameters.
\<close>

theorem get_deliveries_filter:
  assumes "get_truthy f ''customer_id'' = None" and "get_truthy f ''status'' = Some st"
    and "get_truthy f ''date_from'' = Some d" and "get_truthy f ''date_to'' = None"
  shows "deliveries_params (Some f) topn =
           [(''$top'', JNum topn),
            (''$filter'', JStr (''status eq '' @ quoted st @ '' and (deliveryDate ge '' @ d @ '')''))]
     \<and> (\<exists>n\<le>retries cl.
           map (\<lambda>(m, u, p, j). p) (sent (trace (snd (get_deliveries cl cfg (Some f) topn s)))) =
           map (\<lambda>(m, u, p, j). p) (sent (trace s)) @
           replicate n (Some [(''$top'', JNum topn),
              (''$filter'', JStr (''status eq '' @ quoted st @ '' and (deliveryDate ge '' @ d @ '')''))]))"
proof -
  let ?P = "[(''$top'', JNum topn),
            (''$filter'', JStr (''status eq '' @ quoted st @ '' and (deliveryDate ge '' @ d @ '')''))]"
  from assms(2) have ne: "f \<noteq> []" by (auto simp: get_truthy_def)
  have params: "deliveries_params (Some f) topn = ?P"
    using assms ne
    by (simp add: deliveries_params_def with_customer_def with_status_def with_dates_def
          get_filter_def Let_def)
  have "\<exists>n\<le>retries cl.
           map (\<lambda>(m, u, p, j). p) (sent (trace (snd (get_deliveries cl cfg (Some f) topn s)))) =
           map (\<lambda>(m, u, p, j). p) (sent (trace s)) @ replicate n (Some ?P)"
  proof (cases "delivery_url cl ''deliveries''")
    case (Inl e)
    then have "snd (get_deliveries cl cfg (Some f) topn s) = s"
      by (simp add: get_deliveries_def bind_def lift_def)
    then show ?thesis by (intro exI [of _ 0]) simp
  next
    case (Inr url)
    then have "snd (get_deliveries cl cfg (Some f) topn s) =
        snd (request cl cfg ''GET'' url (Some ?P) None True s)"
      using params
      by (simp add: get_deliveries_def bind_def lift_def split: prod.splits sum.splits)
    with request_sent [of cl cfg "''GET''" url "Some ?P" None True s]
    show ?thesis by auto
  qed
  with params show ?thesis by blast
qed

theorem get_deliveries_filter_witness:
  "get_truthy [(''status'', ''Delivered''), (''date_from'', ''2024-01-01'')] ''customer_id'' = None
   \<and> get_truthy [(''status'', ''Delivered''), (''date_from'', ''2024-01-01'')] ''status''
        = Some ''Delivered''
   \<and> get_truthy [(''status'', ''Delivered''), (''date_from'', ''2024-01-01'')] ''date_from''
        = Some ''2024-01-01''
   \<and> get_truthy [(''status'', ''Delivered''), (''date_from'', ''2024-01-01'')] ''date_to'' = None
   \<and> deliveries_params (Some [(''status'', ''Delivered''), (''date_from'', ''2024-01-01'')]) 20 =
        [(''$top'', JNum 20),
         (''$filter'', JStr ''status eq 'Delivered' and (deliveryDate ge 2024-01-01)'')]"
proof -
  let ?f = "[(''status'', ''Delivered''), (''date_from'', ''2024-01-01'')]"
  have h: "get_truthy ?f ''customer_id'' = None" "get_truthy ?f ''status'' = Some ''Delivered''"
    "get_truthy ?f ''date_from'' = Some ''2024-01-01''" "get_truthy ?f ''date_to'' = None"
    by (simp_all add: get_truthy_def)
  from get_deliveries_filter [OF h, of 20] h show ?thesis
    by (simp add: quoted_def)
qed

text \<open>
  C10. On a client with a base URL, \<^verbatim>\<open>update_delivery_status\<close> is one call of
  \<^verbatim>\<open>_request\<close>: a PATCH of \<open>.../deliveries('{id}')\<close>, the key between single quotes
  for every identifier, with the body \<^verbatim>\<open>status\<close>, \<^verbatim>\<open>lastUpdateDate: None\<close> and,
  when given, \<^verbatim>\<open>notes\<close>. This URL is never the unquoted one that \<^verbatim>\<open>get_delivery\<close>
  uses for identifiers that look like GUIDs.
\<close>

theorem update_delivery_status_quoted_key:
  assumes "eb_base_url (url_builder cl) = Some b"
  shows "(let U = split_first ''/api/v2.0'' b @ ''/api/techSphereDynamics/delivery/v1.0/companies(''
                    @ py_str (eb_company_id (url_builder cl)) @ '')/'';
              data = [(''status'', JStr status), (''lastUpdateDate'', JNull)]
                       @ (if notes \<noteq> [] then [(''notes'', JStr notes)] else [])
          in update_delivery_status cl cfg delivery_id status notes s =
               request cl cfg ''PATCH'' (U @ ''deliveries('' @ quoted delivery_id @ '')'') None
                 (Some data) True s
             \<and> (\<exists>n\<le>retries cl.
                   sent (trace (snd (update_delivery_status cl cfg delivery_id status notes s))) =
                   sent (trace s) @
                   replicate n (''PATCH'', U @ ''deliveries('' @ quoted delivery_id @ '')'', None,
                                Some data))
             \<and> U @ ''deliveries('' @ quoted delivery_id @ '')''
                 \<noteq> U @ ''deliveries('' @ delivery_id @ '')'')"
proof -
  let ?U = "split_first ''/api/v2.0'' b @ ''/api/techSphereDynamics/delivery/v1.0/companies(''
                    @ py_str (eb_company_id (url_builder cl)) @ '')/''"
  let ?data = "[(''status'', JStr status), (''lastUpdateDate'', JNull)]
                       @ (if notes \<noteq> [] then [(''notes'', JStr notes)] else [])"
  note u = delivery_url_eq [OF assms]
  have eq: "update_delivery_status cl cfg delivery_id status notes s =
               request cl cfg ''PATCH'' (?U @ ''deliveries('' @ quoted delivery_id @ '')'') None
                 (Some ?data) True s"
    using u by (simp add: update_delivery_status_def bind_def lift_def Let_def)
  have "length (quoted delivery_id @ '')'') \<noteq> length (delivery_id @ '')'')"
    by (simp add: quoted_def)
  then have ne: "?U @ ''deliveries('' @ quoted delivery_id @ '')''
                 \<noteq> ?U @ ''deliveries('' @ delivery_id @ '')''"
    by auto
  from request_sent [of cl cfg "''PATCH''" "?U @ ''deliveries('' @ quoted delivery_id @ '')''"
        None "Some ?data" True s] eq ne
  show ?thesis by (simp add: Let_def)
qed

theorem update_delivery_status_quoted_key_witness:
  "eb_base_url (url_builder demo_client) =
     Some ''https://api.businesscentral.dynamics.com/v2.0/T/prod/api/v2.0''
   \<and> sent (trace (snd (update_delivery_status demo_client demo_cfg
                          ''3fa85f64-5717-4562-b3fc-2c963f66afa6'' ''Delivered'' []
                          (cached [] [(0, Responds r200)])))) =
       [(''PATCH'',
         ''https://api.businesscentral.dynamics.com/v2.0/T/prod/api/techSphereDynamics/delivery/v1.0/companies(C)/deliveries('3fa85f64-5717-4562-b3fc-2c963f66afa6')'',
         None, Some [(''status'', JStr ''Delivered''), (''lastUpdateDate'', JNull)])]"
proof -
  have b: "eb_base_url (url_builder demo_client) =
     Some ''https://api.businesscentral.dynamics.com/v2.0/T/prod/api/v2.0''"
    by (simp add: model_defs scenario_defs)
  have c: "eb_company_id (url_builder demo_client) = Some ''C''"
    by (simp add: model_defs scenario_defs)
  from update_delivery_status_quoted_key [OF b,
      where delivery_id = "''3fa85f64-5717-4562-b3fc-2c963f66afa6''" and cfg = demo_cfg
        and status = "''Delivered''" and ?notes = "[]" and s = "cached [] [(0, Responds r200)]"]
  have eq: "update_delivery_status demo_client demo_cfg ''3fa85f64-5717-4562-b3fc-2c963f66afa6''
              ''Delivered'' [] (cached [] [(0, Responds r200)]) =
      request demo_client demo_cfg ''PATCH''
        ''https://api.businesscentral.dynamics.com/v2.0/T/prod/api/techSphereDynamics/delivery/v1.0/companies(C)/deliveries('3fa85f64-5717-4562-b3fc-2c963f66afa6')''
        None (Some [(''status'', JStr ''Delivered''), (''lastUpdateDate'', JNull)]) True
        (cached [] [(0, Responds r200)])"
    by (simp add: c Let_def quoted_def)
  show ?thesis
    unfolding eq by (simp add: b sent_def model_defs scenario_defs)
qed

end
